theory Spec2Isabelle
  imports Main
begin

section \<open>JavaScript values and errors\<close>

text \<open>
  Values that can arrive in a JSON request body. \<open>JObject\<close> stands for any object or array
  (truthy, no \<open>trim\<close> method, no string cast). Strings are ASCII character lists.
\<close>

datatype jsval = JUndefined | JNull | JBool bool | JNum int | JString string | JObject

text \<open>Thrown values: the constructor is \<open>error.name\<close>, the argument \<open>error.message\<close>.\<close>

datatype js_error =
    Error string
  | TypeError string
  | CastError string
  | ValidationError string
  | JsonWebTokenError string
  | TokenExpiredError string
  | MongoServerError string

fun message :: "js_error \<Rightarrow> string" where
  "message (Error m) = m"
| "message (TypeError m) = m"
| "message (CastError m) = m"
| "message (ValidationError m) = m"
| "message (JsonWebTokenError m) = m"
| "message (TokenExpiredError m) = m"
| "message (MongoServerError m) = m"

fun name :: "js_error \<Rightarrow> string" where
  "name (Error m) = ''Error''"
| "name (TypeError m) = ''TypeError''"
| "name (CastError m) = ''CastError''"
| "name (ValidationError m) = ''ValidationError''"
| "name (JsonWebTokenError m) = ''JsonWebTokenError''"
| "name (TokenExpiredError m) = ''TokenExpiredError''"
| "name (MongoServerError m) = ''MongoServerError''"

text \<open>Truthiness, as \<open>!x\<close> and \<open>if (x)\<close> test it.\<close>

fun truthy :: "jsval \<Rightarrow> bool" where
  "truthy JUndefined = False"
| "truthy JNull = False"
| "truthy (JBool b) = b"
| "truthy (JNum n) = (n \<noteq> 0)"
| "truthy (JString s) = (s \<noteq> [])"
| "truthy JObject = True"

definition isWhiteSpace :: "char \<Rightarrow> bool" where
  "isWhiteSpace c = (c \<in> set [CHR '' '', CHR 0x09, CHR 0x0A, CHR 0x0B, CHR 0x0C, CHR 0x0D])"

text \<open>\<open>String.prototype.trim\<close>.\<close>

definition trim :: "string \<Rightarrow> string" where
  "trim s = rev (dropWhile isWhiteSpace (rev (dropWhile isWhiteSpace s)))"

definition toLowerCaseChar :: "char \<Rightarrow> char" where
  "toLowerCaseChar c =
     (let n = (of_char c :: nat) in if 65 \<le> n \<and> n \<le> 90 then char_of (n + 32) else c)"

text \<open>\<open>String.prototype.toLowerCase\<close>, on ASCII.\<close>

definition toLowerCase :: "string \<Rightarrow> string" where
  "toLowerCase s = map toLowerCaseChar s"

definition notAFunction :: "string \<Rightarrow> js_error" where
  "notAFunction what = TypeError (what @ '' is not a function'')"

text \<open>
  \<open>field?.trim()\<close>: \<open>undefined\<close> for \<open>undefined\<close> and \<open>null\<close>, the trimmed string for a
  string, and a \<open>TypeError\<close> for every other value (it has no \<open>trim\<close> method).
\<close>

fun optTrim :: "string \<Rightarrow> jsval \<Rightarrow> js_error + jsval" where
  "optTrim what JUndefined = Inr JUndefined"
| "optTrim what JNull = Inr JUndefined"
| "optTrim what (JString s) = Inr (JString (trim s))"
| "optTrim what v = Inl (notAFunction (what @ ''.trim''))"

text \<open>\<open>x.trim()\<close> without optional chaining, called on a truthy value.\<close>

fun callTrim :: "string \<Rightarrow> jsval \<Rightarrow> js_error + string" where
  "callTrim what (JString s) = Inr (trim s)"
| "callTrim what v = Inl (notAFunction (what @ ''.trim''))"

section \<open>Documents and collections\<close>

type_synonym objectId = nat

record iuser =
  u_id :: objectId
  username :: string
  email :: string
  isPremium :: bool
  avatar :: string
  coverImage :: string
  password :: string
  watchHistory :: "objectId list"

record ivideo =
  v_id :: objectId
  videoSrc :: string
  thumbnail :: string
  v_owner :: objectId
  title :: string
  description :: string
  duration :: string
  views :: nat

record itweet =
  t_id :: objectId
  t_content :: string
  t_owner :: objectId

record icomment =
  c_id :: objectId
  c_content :: string
  c_video :: objectId
  c_owner :: objectId

record ilike =
  l_id :: objectId
  isLiked :: bool
  likedBy :: objectId
  comment :: "objectId option"
  video :: "objectId option"
  tweet :: "objectId option"

record isubscription =
  s_id :: objectId
  subscriber :: objectId
  channel :: objectId

text \<open>
  The database: one list per collection, in insertion (natural) order, and the next fresh
  \<open>_id\<close>. The timestamps \<open>createdAt\<close> and \<open>updatedAt\<close> are left out.
\<close>

record state =
  users :: "iuser list"
  videos :: "ivideo list"
  tweets :: "itweet list"
  comments :: "icomment list"
  likes :: "ilike list"
  subscriptions :: "isubscription list"
  nextId :: objectId

text \<open>
  A path parameter that names a document: \<open>IdOk i\<close> is a string that casts to the ObjectId
  \<open>i\<close>, \<open>IdBad\<close> a string that does not, for which the cast inside \<open>findById\<close> throws
  Mongoose's \<open>CastError\<close> (its message is shortened here).
\<close>

datatype param = IdOk objectId | IdBad

definition castFailed :: js_error where
  "castFailed = CastError ''Cast to ObjectId failed''"

definition UserModel_findById :: "state \<Rightarrow> objectId \<Rightarrow> iuser option" where
  "UserModel_findById st i = find (\<lambda>u. u_id u = i) (users st)"

definition VideoModel_findById :: "state \<Rightarrow> param \<Rightarrow> js_error + ivideo option" where
  "VideoModel_findById st p =
     (case p of IdBad \<Rightarrow> Inl castFailed
      | IdOk i \<Rightarrow> Inr (find (\<lambda>v. v_id v = i) (videos st)))"

definition TweetModel_findById :: "state \<Rightarrow> param \<Rightarrow> js_error + itweet option" where
  "TweetModel_findById st p =
     (case p of IdBad \<Rightarrow> Inl castFailed
      | IdOk i \<Rightarrow> Inr (find (\<lambda>t. t_id t = i) (tweets st)))"

definition CommentModel_findById :: "state \<Rightarrow> param \<Rightarrow> js_error + icomment option" where
  "CommentModel_findById st p =
     (case p of IdBad \<Rightarrow> Inl castFailed
      | IdOk i \<Rightarrow> Inr (find (\<lambda>c. c_id c = i) (comments st)))"

subsection \<open>Schema indexes and the store's insert\<close>

text \<open>
  An index declared by a schema: the field paths it covers and whether it is unique.
  \<open>LikeSchema\<close> declares \<open>index: true\<close> on four fields and nothing else;
  \<open>SubscriptionSchema\<close> declares one compound index with \<open>unique: true\<close>.
\<close>

record index_spec =
  paths :: "string list"
  unique :: bool

definition LikeSchema_indexes :: "index_spec list" where
  "LikeSchema_indexes =
     [\<lparr>paths = [''likedBy''], unique = False\<rparr>,
      \<lparr>paths = [''comment''], unique = False\<rparr>,
      \<lparr>paths = [''video''], unique = False\<rparr>,
      \<lparr>paths = [''tweet''], unique = False\<rparr>]"

definition SubscriptionSchema_indexes :: "index_spec list" where
  "SubscriptionSchema_indexes = [\<lparr>paths = [''subscriber'', ''channel''], unique = True\<rparr>]"

definition like_path :: "ilike \<Rightarrow> string \<Rightarrow> objectId option" where
  "like_path l p =
     (if p = ''likedBy'' then Some (likedBy l)
      else if p = ''comment'' then comment l
      else if p = ''video'' then video l
      else if p = ''tweet'' then tweet l
      else None)"

definition subscription_path :: "isubscription \<Rightarrow> string \<Rightarrow> objectId option" where
  "subscription_path s p =
     (if p = ''subscriber'' then Some (subscriber s)
      else if p = ''channel'' then Some (channel s)
      else None)"

definition duplicateKey :: js_error where
  "duplicateKey = MongoServerError ''E11000 duplicate key error''"

text \<open>
  The store's insert: the write is refused when a unique index already holds the new
  document's key, and appends the document otherwise.
\<close>

definition insertOne ::
  "index_spec list \<Rightarrow> ('d \<Rightarrow> string \<Rightarrow> objectId option) \<Rightarrow> 'd \<Rightarrow> 'd list \<Rightarrow> js_error + 'd list" where
  "insertOne indexes path doc coll =
     (if list_ex (\<lambda>ix. unique ix \<and> list_ex (\<lambda>d. map (path d) (paths ix) = map (path doc) (paths ix)) coll)
           indexes
      then Inl duplicateKey
      else Inr (coll @ [doc]))"

text \<open>The store's update of the document with a given \<open>_id\<close> (at most one is touched).\<close>

fun updateOne :: "('d \<Rightarrow> objectId) \<Rightarrow> objectId \<Rightarrow> ('d \<Rightarrow> 'd) \<Rightarrow> 'd list \<Rightarrow> 'd list" where
  "updateOne key i f [] = []"
| "updateOne key i f (d # ds) = (if key d = i then f d # ds else d # updateOne key i f ds)"

text \<open>\<open>findByIdAndDelete\<close>: removes the document with the given \<open>_id\<close>.\<close>

fun deleteOne :: "('d \<Rightarrow> objectId) \<Rightarrow> objectId \<Rightarrow> 'd list \<Rightarrow> 'd list" where
  "deleteOne key i [] = []"
| "deleteOne key i (d # ds) = (if key d = i then ds else d # deleteOne key i ds)"

section \<open>Requests, responses, environment\<close>

text \<open>
  A session cookie's value: \<open>Token i k e\<close> is the JWT with payload \<open>{_id: i, exp: e}\<close> signed
  with key \<open>k\<close>; \<open>Opaque s\<close> is any other string.
\<close>

datatype token = Token objectId string nat | Opaque string

text \<open>A file part of a multipart request: the name the client gave it and its size in bytes.\<close>

record upload =
  originalname :: string
  size :: nat

text \<open>
  What the client sends: the cookies, the path parameters, the parsed body (the fields of
  the object, each key once) and the file part named \<open>thumbnail\<close>, if any.
\<close>

record http_request =
  cookies :: "(string \<times> token) list"
  idParam :: param
  usernameParam :: string
  body :: "(string \<times> jsval) list"
  thumbnailUpload :: "upload option"

text \<open>
  Express's request object: what the client sent, \<open>req.user\<close> and the path of
  \<open>req.files.thumbnail[0]\<close>, both initially undefined.
\<close>

record request =
  http :: http_request
  user :: "iuser option"
  thumbnailFile :: "string option"

definition incoming :: "http_request \<Rightarrow> request" where
  "incoming h = \<lparr>http = h, user = None, thumbnailFile = None\<rparr>"

definition field :: "request \<Rightarrow> string \<Rightarrow> jsval" where
  "field req k = (case map_of (body (http req)) k of None \<Rightarrow> JUndefined | Some v \<Rightarrow> v)"

record channel_view =
  cv_id :: objectId
  cv_username :: string
  cv_avatar :: string
  cv_coverImage :: string
  cv_isPremium :: bool
  cv_email :: string
  subscribersCount :: nat
  subscribedToCount :: nat
  isSubscribed :: bool

record owner_view =
  ov_id :: objectId
  ov_username :: string
  ov_avatar :: string

record history_entry =
  h_video :: ivideo
  h_owner :: "owner_view option"

datatype payload =
    ErrorJson string string
  | AuthFailure string
  | Text string
  | ErrorPage string
  | MessageJson string
  | LikeJson ilike
  | CommentJson icomment
  | TweetJson itweet
  | MessageTweetJson string itweet
  | MessageVideoJson string ivideo
  | ChannelJson "channel_view list"
  | HistoryJson "history_entry list"
  | UserJson iuser

record response =
  status :: nat
  payload :: payload
  setCookie :: "token option"

definition reply :: "nat \<Rightarrow> payload \<Rightarrow> response" where
  "reply s p = \<lparr>status = s, payload = p, setCookie = None\<rparr>"

text \<open>
  What the handlers read from outside the database: the JWT secret of \<open>authConfig\<close>, the
  clock in seconds, and the results of the libraries and services whose code is not part of
  the repository: Node's \<open>path.extname\<close>, the Cloudinary upload, Mongoose's cast of a non-string value assigned to a
  String path, \<open>bcrypt.compare\<close>, and the query \<open>UserModel.findOne({ email })\<close> with
  Mongoose's casting of its filter.
\<close>

record env =
  secretKey :: string
  now :: nat
  extname :: "string \<Rightarrow> string"
  uploadOnCloudinary :: "string \<Rightarrow> js_error + string"
  castString :: "jsval \<Rightarrow> js_error + string"
  bcryptCompare :: "jsval \<Rightarrow> string \<Rightarrow> js_error + bool"
  findOneByEmail :: "iuser list \<Rightarrow> jsval \<Rightarrow> js_error + iuser option"

definition cookieName :: string where
  "cookieName = ''yt-Token''"

definition undefinedRead :: "string \<Rightarrow> js_error" where
  "undefinedRead p =
     TypeError (''Cannot read properties of undefined (reading '' @ [CHR 0x27] @ p @ [CHR 0x27] @ '')'')"

section \<open>Session resolution\<close>

text \<open>
  \<open>jwt.verify\<close>: a string that is not a JWT or whose signature does not match the key is a
  \<open>JsonWebTokenError\<close>; a token whose expiry has passed is a \<open>TokenExpiredError\<close>; the
  signature is checked first.
\<close>

fun jwt_verify :: "env \<Rightarrow> token \<Rightarrow> js_error + objectId" where
  "jwt_verify e (Opaque s) = Inl (JsonWebTokenError ''jwt malformed'')"
| "jwt_verify e (Token i k ex) =
     (if k \<noteq> secretKey e then Inl (JsonWebTokenError ''invalid signature'')
      else if ex \<le> now e then Inl (TokenExpiredError ''jwt expired'')
      else Inr i)"

text \<open>\<open>!token\<close>: the cookie is missing or is the empty string.\<close>

fun noToken :: "token option \<Rightarrow> bool" where
  "noToken None = True"
| "noToken (Some (Opaque s)) = (s = [])"
| "noToken (Some (Token i k ex)) = False"

definition authenticate_try :: "env \<Rightarrow> state \<Rightarrow> request \<Rightarrow> js_error + iuser" where
  "authenticate_try e st req =
     (case map_of (cookies (http req)) cookieName of
        None \<Rightarrow> Inl (Error ''Authentication required pls login'')
      | Some token \<Rightarrow>
          if noToken (Some token) then Inl (Error ''Authentication required pls login'')
          else (case jwt_verify e token of
                  Inl err \<Rightarrow> Inl err
                | Inr decoded_id \<Rightarrow>
                    (case UserModel_findById st decoded_id of
                       None \<Rightarrow> Inl (Error ''User Account Not Found. Pls Register'')
                     | Some u \<Rightarrow> Inr u)))"

text \<open>
  The middleware: \<open>Inr\<close> is the call of \<open>next()\<close> with \<open>req.user\<close> set, \<open>Inl\<close> the 401
  response, after which the handler is not run.
\<close>

definition authenticateUser :: "env \<Rightarrow> state \<Rightarrow> request \<Rightarrow> response + request" where
  "authenticateUser e st req =
     (case authenticate_try e st req of
        Inr u \<Rightarrow> Inr (req\<lparr>user := Some u\<rparr>)
      | Inl err \<Rightarrow>
          Inl (reply 401 (AuthFailure
            (if name err = ''JsonWebTokenError'' then ''Invalid authentication token''
             else if name err = ''TokenExpiredError'' then ''Session expired. Please log in again.''
             else ''Authentication failed. Please try again.''))))"

text \<open>A route guarded by the middleware.\<close>

definition protected ::
  "(state \<Rightarrow> request \<Rightarrow> response \<times> state) \<Rightarrow> env \<Rightarrow> state \<Rightarrow> request \<Rightarrow> response \<times> state" where
  "protected handler e st req =
     (case authenticateUser e st req of
        Inl res \<Rightarrow> (res, st)
      | Inr req' \<Rightarrow> handler st req')"

text \<open>\<open>req.user._id\<close>.\<close>

definition req_user_id :: "request \<Rightarrow> js_error + objectId" where
  "req_user_id req = (case user req of None \<Rightarrow> Inl (undefinedRead ''_id'') | Some u \<Rightarrow> Inr (u_id u))"

text \<open>The \<open>catch\<close> block shared by the JSON routes: status, \<open>message\<close>, \<open>error.message\<close>.\<close>

definition catch :: "nat \<Rightarrow> string \<Rightarrow> state \<Rightarrow> js_error + response \<times> state \<Rightarrow> response \<times> state" where
  "catch code msg st r =
     (case r of Inl err \<Rightarrow> (reply code (ErrorJson msg (message err)), st) | Inr ok \<Rightarrow> ok)"

section \<open>The toggle-like routes\<close>

definition notBoolean :: js_error where
  "notBoolean = Error ''toggleLike must be a boolean: true to like or false to remove the like''"

definition LikeModel_save_new :: "state \<Rightarrow> ilike \<Rightarrow> js_error + state" where
  "LikeModel_save_new st l =
     (case insertOne LikeSchema_indexes like_path l (likes st) of
        Inl err \<Rightarrow> Inl err
      | Inr ls \<Rightarrow> Inr (st\<lparr>likes := ls, nextId := Suc (nextId st)\<rparr>))"

definition LikeModel_save_isLiked :: "state \<Rightarrow> ilike \<Rightarrow> bool \<Rightarrow> state" where
  "LikeModel_save_isLiked st l b =
     st\<lparr>likes := updateOne l_id (l_id l) (\<lambda>d. d\<lparr>isLiked := b\<rparr>) (likes st)\<rparr>"

definition videoToggleLike_try :: "state \<Rightarrow> request \<Rightarrow> js_error + response \<times> state" where
  "videoToggleLike_try st req =
     (case req_user_id req of Inl err \<Rightarrow> Inl err | Inr userId \<Rightarrow>
      (case UserModel_findById st userId of
         None \<Rightarrow> Inl (Error ''Unable to find the user'')
       | Some u \<Rightarrow>
      (case VideoModel_findById st (idParam (http req)) of Inl err \<Rightarrow> Inl err
       | Inr None \<Rightarrow> Inl (Error ''Unable to find the video'')
       | Inr (Some videoDetails) \<Rightarrow>
      (case field req ''toggleLike'' of
         JBool toggleLike \<Rightarrow>
           (case find (\<lambda>l. video l = Some (v_id videoDetails) \<and> likedBy l = userId) (likes st) of
              Some existingLike \<Rightarrow>
                Inr (reply 201 (LikeJson (existingLike\<lparr>isLiked := toggleLike\<rparr>)),
                     LikeModel_save_isLiked st existingLike toggleLike)
            | None \<Rightarrow>
                if \<not> toggleLike then Inl (Error ''No like exists to remove.'')
                else
                  (let newLike = \<lparr>l_id = nextId st, isLiked = True, likedBy = userId,
                                   comment = None, video = Some (v_id videoDetails), tweet = None\<rparr>
                   in case LikeModel_save_new st newLike of
                        Inl err \<Rightarrow> Inl err
                      | Inr st' \<Rightarrow> Inr (reply 201 (LikeJson newLike), st')))
       | _ \<Rightarrow> Inl notBoolean))))"

definition videoToggleLike :: "state \<Rightarrow> request \<Rightarrow> response \<times> state" where
  "videoToggleLike st req = catch 400 ''Unable to toggle the like'' st (videoToggleLike_try st req)"

definition tweetToggleLike_try :: "state \<Rightarrow> request \<Rightarrow> js_error + response \<times> state" where
  "tweetToggleLike_try st req =
     (case req_user_id req of Inl err \<Rightarrow> Inl err | Inr userId \<Rightarrow>
      (case UserModel_findById st userId of
         None \<Rightarrow> Inl (Error ''Unable to find the user'')
       | Some u \<Rightarrow>
      (case TweetModel_findById st (idParam (http req)) of Inl err \<Rightarrow> Inl err
       | Inr None \<Rightarrow> Inl (Error ''Unable to find the video'')
       | Inr (Some tweetDetails) \<Rightarrow>
      (case field req ''toggleLike'' of
         JBool toggleLike \<Rightarrow>
           (case find (\<lambda>l. tweet l = Some (t_id tweetDetails) \<and> likedBy l = userId) (likes st) of
              Some existingLike \<Rightarrow>
                Inr (reply 201 (LikeJson (existingLike\<lparr>isLiked := toggleLike\<rparr>)),
                     LikeModel_save_isLiked st existingLike toggleLike)
            | None \<Rightarrow>
                if \<not> toggleLike then Inl (Error ''No like exists to remove.'')
                else
                  (let newLike = \<lparr>l_id = nextId st, isLiked = True, likedBy = userId,
                                   comment = None, video = None, tweet = Some (t_id tweetDetails)\<rparr>
                   in case LikeModel_save_new st newLike of
                        Inl err \<Rightarrow> Inl err
                      | Inr st' \<Rightarrow> Inr (reply 201 (LikeJson newLike), st')))
       | _ \<Rightarrow> Inl notBoolean))))"

definition tweetToggleLike :: "state \<Rightarrow> request \<Rightarrow> response \<times> state" where
  "tweetToggleLike st req = catch 400 ''Unable to toggle the like'' st (tweetToggleLike_try st req)"

definition commentToggleLike_try :: "state \<Rightarrow> request \<Rightarrow> js_error + response \<times> state" where
  "commentToggleLike_try st req =
     (case req_user_id req of Inl err \<Rightarrow> Inl err | Inr userId \<Rightarrow>
      (case UserModel_findById st userId of
         None \<Rightarrow> Inl (Error ''Unable to find the user'')
       | Some u \<Rightarrow>
      (case CommentModel_findById st (idParam (http req)) of Inl err \<Rightarrow> Inl err
       | Inr None \<Rightarrow> Inl (Error ''Unable to find the video'')
       | Inr (Some commentDetails) \<Rightarrow>
      (case field req ''toggleLike'' of
         JBool toggleLike \<Rightarrow>
           (case find (\<lambda>l. comment l = Some (c_id commentDetails) \<and> likedBy l = userId) (likes st) of
              Some existingLike \<Rightarrow>
                Inr (reply 201 (LikeJson (existingLike\<lparr>isLiked := toggleLike\<rparr>)),
                     LikeModel_save_isLiked st existingLike toggleLike)
            | None \<Rightarrow>
                if \<not> toggleLike then Inl (Error ''No like exists to remove.'')
                else
                  (let newLike = \<lparr>l_id = nextId st, isLiked = True, likedBy = userId,
                                   comment = Some (c_id commentDetails), video = None, tweet = None\<rparr>
                   in case LikeModel_save_new st newLike of
                        Inl err \<Rightarrow> Inl err
                      | Inr st' \<Rightarrow> Inr (reply 201 (LikeJson newLike), st')))
       | _ \<Rightarrow> Inl notBoolean))))"

definition commentToggleLike :: "state \<Rightarrow> request \<Rightarrow> response \<times> state" where
  "commentToggleLike st req = catch 400 ''Unable to toggle the like'' st (commentToggleLike_try st req)"


text \<open>The resource kind a like refers to, one per router.\<close>

datatype kind = OnVideo | OnTweet | OnComment

definition toggleLike :: "kind \<Rightarrow> state \<Rightarrow> request \<Rightarrow> response \<times> state" where
  "toggleLike k =
     (case k of OnVideo \<Rightarrow> videoToggleLike | OnTweet \<Rightarrow> tweetToggleLike
      | OnComment \<Rightarrow> commentToggleLike)"

definition toggleLikeRoute :: "kind \<Rightarrow> env \<Rightarrow> state \<Rightarrow> request \<Rightarrow> response \<times> state" where
  "toggleLikeRoute k = protected (toggleLike k)"

section \<open>Edit and delete of videos, tweets and comments\<close>

definition videoDelete_try :: "state \<Rightarrow> request \<Rightarrow> js_error + response \<times> state" where
  "videoDelete_try st req =
     (case req_user_id req of Inl err \<Rightarrow> Inl err | Inr userId \<Rightarrow>
      (case UserModel_findById st userId of
         None \<Rightarrow> Inl (Error ''Unable to find the user'')
       | Some u \<Rightarrow>
      (case VideoModel_findById st (idParam (http req)) of Inl err \<Rightarrow> Inl err
       | Inr None \<Rightarrow> Inl (Error ''Video not found.'')
       | Inr (Some videoDetails) \<Rightarrow>
           if v_owner videoDetails \<noteq> userId
           then Inl (Error ''Unauthorized: Only the owner can delete this video.'')
           else Inr (reply 200 (MessageJson ''Video deleted successfully.''),
                     st\<lparr>videos := deleteOne v_id (v_id videoDetails) (videos st)\<rparr>))))"

definition videoDelete :: "state \<Rightarrow> request \<Rightarrow> response \<times> state" where
  "videoDelete st req = catch 500 ''Unable to delete the video.'' st (videoDelete_try st req)"

text \<open>The value a String path holds after an assignment: strings as they are, others cast.\<close>

definition mongooseString :: "env \<Rightarrow> jsval \<Rightarrow> js_error + string" where
  "mongooseString e v = (case v of JString s \<Rightarrow> Inr s | _ \<Rightarrow> castString e v)"

text \<open>\<open>if (x) doc.path = x\<close> on a String path with \<open>trim: true\<close>.\<close>

definition assignIfTruthy :: "env \<Rightarrow> jsval \<Rightarrow> string \<Rightarrow> js_error + string" where
  "assignIfTruthy e v old =
     (if truthy v
      then (case mongooseString e v of Inl err \<Rightarrow> Inl err | Inr s \<Rightarrow> Inr (trim s))
      else Inr old)"

text \<open>The required paths of \<open>VideoSchema\<close>, checked by \<open>save\<close>.\<close>

definition VideoSchema_validate :: "ivideo \<Rightarrow> js_error + unit" where
  "VideoSchema_validate v =
     (if videoSrc v = [] then Inl (ValidationError ''Video validation failed: videoSrc: Video Src is required'')
      else if title v = [] then Inl (ValidationError ''Video validation failed: title: Title is required'')
      else if duration v = [] then Inl (ValidationError ''Video validation failed: duration: Path `duration` is required.'')
      else Inr ())"

definition videoEdit_try :: "env \<Rightarrow> state \<Rightarrow> request \<Rightarrow> js_error + response \<times> state" where
  "videoEdit_try e st req =
     (case req_user_id req of Inl err \<Rightarrow> Inl err | Inr userId \<Rightarrow>
      (case VideoModel_findById st (idParam (http req)) of Inl err \<Rightarrow> Inl err
       | Inr None \<Rightarrow> Inl (Error ''Video not found.'')
       | Inr (Some videoDetails) \<Rightarrow>
           if v_owner videoDetails \<noteq> userId
           then Inl (Error ''Unauthorized: Only the owner can edit this video.'')
           else
      (case (case thumbnailFile req of
               None \<Rightarrow> Inr (thumbnail videoDetails)
             | Some thumbnailLocalPath \<Rightarrow>
                 (case uploadOnCloudinary e thumbnailLocalPath of
                    Inl err \<Rightarrow> Inl err | Inr optimizedUrl \<Rightarrow> Inr (trim optimizedUrl)))
       of Inl err \<Rightarrow> Inl err | Inr newThumbnail \<Rightarrow>
      (case assignIfTruthy e (field req ''title'') (title videoDetails) of
         Inl err \<Rightarrow> Inl err | Inr newTitle \<Rightarrow>
      (case assignIfTruthy e (field req ''description'') (description videoDetails) of
         Inl err \<Rightarrow> Inl err | Inr newDescription \<Rightarrow>
      (let updated = videoDetails\<lparr>thumbnail := newThumbnail, title := newTitle,
                                  description := newDescription\<rparr>
       in case VideoSchema_validate updated of
            Inl err \<Rightarrow> Inl err
          | Inr _ \<Rightarrow>
              Inr (reply 200 (MessageVideoJson ''Video updated successfully'' updated),
                   st\<lparr>videos := updateOne v_id (v_id updated) (\<lambda>_. updated) (videos st)\<rparr>)))))))"

definition videoEdit :: "env \<Rightarrow> state \<Rightarrow> request \<Rightarrow> response \<times> state" where
  "videoEdit e st req = catch 400 ''Unable to edit the video'' st (videoEdit_try e st req)"

text \<open>
  The upload middleware \<open>uploadMiddleware.fields([{name: "thumbnail", maxCount: 1}])\<close>: the
  file filter accepts the extensions of the allowed set, and the size limit applies; a
  rejected file is an error passed to \<open>next\<close>, which Express answers with status 500 and its
  error page, without running the handler. An accepted file is stored under the name the
  storage gives it. A request carries at most the one file part the route names.
\<close>

definition ALLOWED_FILE_EXTENSIONS :: "string list" where
  "ALLOWED_FILE_EXTENSIONS = [''.jpg'', ''.jpeg'', ''.png'', ''.webp'', ''.mp4'']"

definition FILE_UPLOAD_LIMIT :: nat where
  "FILE_UPLOAD_LIMIT = 5 * 1024 * 1024 * 100"

definition fileValidator :: "env \<Rightarrow> upload \<Rightarrow> js_error + unit" where
  "fileValidator e file =
     (let fileExtension = toLowerCase (extname e (originalname file)) in
      if fileExtension \<in> set ALLOWED_FILE_EXTENSIONS then Inr ()
      else Inl (Error (''Unsupported file type: '' @ fileExtension @
             ''. Please upload an image or video file in one of these formats: '' @
             ''.jpg, .jpeg, .png, .webp, .mp4'')))"

definition uploadThumbnail :: "env \<Rightarrow> request \<Rightarrow> js_error + request" where
  "uploadThumbnail e req =
     (case thumbnailUpload (http req) of
        None \<Rightarrow> Inr req
      | Some file \<Rightarrow>
          (case fileValidator e file of
             Inl err \<Rightarrow> Inl err
           | Inr _ \<Rightarrow>
               if FILE_UPLOAD_LIMIT < size file then Inl (Error ''File too large'')
               else Inr (req\<lparr>thumbnailFile :=
                           Some (''public/temp/thumbnail-'' @ extname e (originalname file))\<rparr>)))"

definition uploaded ::
  "env \<Rightarrow> (state \<Rightarrow> request \<Rightarrow> response \<times> state) \<Rightarrow> state \<Rightarrow> request \<Rightarrow> response \<times> state" where
  "uploaded e handler st req =
     (case uploadThumbnail e req of
        Inl err \<Rightarrow> (reply 500 (ErrorPage (message err)), st)
      | Inr req' \<Rightarrow> handler st req')"

text \<open>\<open>!content || content.trim() === ""\<close>.\<close>

definition blankContent :: "jsval \<Rightarrow> js_error + bool" where
  "blankContent content =
     (if \<not> truthy content then Inr True
      else (case callTrim ''content'' content of Inl err \<Rightarrow> Inl err | Inr s \<Rightarrow> Inr (s = [])))"

definition stringOf :: "jsval \<Rightarrow> string" where
  "stringOf v = (case v of JString s \<Rightarrow> s | _ \<Rightarrow> [])"

definition videoComment_try :: "state \<Rightarrow> request \<Rightarrow> js_error + response \<times> state" where
  "videoComment_try st req =
     (case req_user_id req of Inl err \<Rightarrow> Inl err | Inr userId \<Rightarrow>
      (case UserModel_findById st userId of
         None \<Rightarrow> Inl (Error ''User not found'')
       | Some u \<Rightarrow>
      (case VideoModel_findById st (idParam (http req)) of Inl err \<Rightarrow> Inl err
       | Inr None \<Rightarrow> Inl (Error ''Video not found'')
       | Inr (Some isVideoExist) \<Rightarrow>
      (case blankContent (field req ''content'') of Inl err \<Rightarrow> Inl err
       | Inr True \<Rightarrow> Inl (Error ''Invalid comment'')
       | Inr False \<Rightarrow>
           (let newComment = \<lparr>c_id = nextId st, c_content = stringOf (field req ''content''),
                               c_video = v_id isVideoExist, c_owner = userId\<rparr>
            in Inr (reply 200 (CommentJson newComment),
                    st\<lparr>comments := comments st @ [newComment], nextId := Suc (nextId st)\<rparr>))))))"

definition videoComment :: "state \<Rightarrow> request \<Rightarrow> response \<times> state" where
  "videoComment st req = catch 400 ''Unable to comment on the video'' st (videoComment_try st req)"

definition tweetUpload_try :: "state \<Rightarrow> request \<Rightarrow> js_error + response \<times> state" where
  "tweetUpload_try st req =
     (case req_user_id req of Inl err \<Rightarrow> Inl err | Inr userId \<Rightarrow>
      (case UserModel_findById st userId of
         None \<Rightarrow> Inl (Error ''Unable to find the user'')
       | Some u \<Rightarrow>
      (case blankContent (field req ''content'') of Inl err \<Rightarrow> Inl err
       | Inr True \<Rightarrow> Inl (Error ''Please write a valid tweet'')
       | Inr False \<Rightarrow>
           (let newTweet = \<lparr>t_id = nextId st, t_content = stringOf (field req ''content''),
                             t_owner = userId\<rparr>
            in Inr (reply 200 (TweetJson newTweet),
                    st\<lparr>tweets := tweets st @ [newTweet], nextId := Suc (nextId st)\<rparr>)))))"

definition tweetUpload :: "state \<Rightarrow> request \<Rightarrow> response \<times> state" where
  "tweetUpload st req = catch 400 ''Unable to upload the tweet'' st (tweetUpload_try st req)"

definition tweetDelete_try :: "state \<Rightarrow> request \<Rightarrow> js_error + response \<times> state" where
  "tweetDelete_try st req =
     (case req_user_id req of Inl err \<Rightarrow> Inl err | Inr userId \<Rightarrow>
      (case UserModel_findById st userId of
         None \<Rightarrow> Inl (Error ''Unable to find the user'')
       | Some u \<Rightarrow>
      (case TweetModel_findById st (idParam (http req)) of Inl err \<Rightarrow> Inl err
       | Inr None \<Rightarrow> Inl (Error ''Tweet not found.'')
       | Inr (Some tweetDoc) \<Rightarrow>
           if t_owner tweetDoc \<noteq> userId
           then Inl (Error ''Unauthorized: Only the owner can delete this tweet.'')
           else Inr (reply 200 (MessageTweetJson ''Tweet deleted successfully.'' tweetDoc),
                     st\<lparr>tweets := deleteOne t_id (t_id tweetDoc) (tweets st)\<rparr>))))"

definition tweetDelete :: "state \<Rightarrow> request \<Rightarrow> response \<times> state" where
  "tweetDelete st req = catch 400 ''Unable to delete the tweet'' st (tweetDelete_try st req)"

definition tweetEdit_try :: "env \<Rightarrow> state \<Rightarrow> request \<Rightarrow> js_error + response \<times> state" where
  "tweetEdit_try e st req =
     (case req_user_id req of Inl err \<Rightarrow> Inl err | Inr userId \<Rightarrow>
      (case UserModel_findById st userId of
         None \<Rightarrow> Inl (Error ''Unable to find the user'')
       | Some u \<Rightarrow>
      (case TweetModel_findById st (idParam (http req)) of Inl err \<Rightarrow> Inl err
       | Inr None \<Rightarrow> Inl (Error ''Tweet not found.'')
       | Inr (Some tweetDoc) \<Rightarrow>
           if t_owner tweetDoc \<noteq> userId
           then Inl (Error ''Unauthorized: Only the owner can delete this tweet.'')
           else if truthy (field req ''content'')
           then (case mongooseString e (field req ''content'') of
                   Inl err \<Rightarrow> Inl err
                 | Inr s \<Rightarrow>
                     if s = [] then Inl (ValidationError ''Tweet validation failed: content: Path `content` is required.'')
                     else (let updated = tweetDoc\<lparr>t_content := s\<rparr>
                           in Inr (reply 200 (MessageTweetJson ''Tweet deleted successfully.'' updated),
                                   st\<lparr>tweets := updateOne t_id (t_id tweetDoc) (\<lambda>_. updated) (tweets st)\<rparr>)))
           else Inl (Error ''No new content Provided''))))"

definition tweetEdit :: "env \<Rightarrow> state \<Rightarrow> request \<Rightarrow> response \<times> state" where
  "tweetEdit e st req = catch 400 ''Unable to edit the tweet'' st (tweetEdit_try e st req)"

definition commentDelete_try :: "state \<Rightarrow> request \<Rightarrow> js_error + response \<times> state" where
  "commentDelete_try st req =
     (case req_user_id req of Inl err \<Rightarrow> Inl err | Inr userId \<Rightarrow>
      (case UserModel_findById st userId of
         None \<Rightarrow> Inl (Error ''User not found'')
       | Some u \<Rightarrow>
      (case CommentModel_findById st (idParam (http req)) of Inl err \<Rightarrow> Inl err
       | Inr None \<Rightarrow> Inl (Error ''Comment not found'')
       | Inr (Some commentDoc) \<Rightarrow>
           if c_owner commentDoc \<noteq> userId
           then Inl (Error ''Unauthorized: Only the comment owner can delete this comment'')
           else Inr (reply 200 (CommentJson commentDoc),
                     st\<lparr>comments := deleteOne c_id (c_id commentDoc) (comments st)\<rparr>))))"

definition commentDelete :: "state \<Rightarrow> request \<Rightarrow> response \<times> state" where
  "commentDelete st req = catch 400 ''Unable to delete the comment'' st (commentDelete_try st req)"

definition commentEdit_try :: "state \<Rightarrow> request \<Rightarrow> js_error + response \<times> state" where
  "commentEdit_try st req =
     (case req_user_id req of Inl err \<Rightarrow> Inl err | Inr userId \<Rightarrow>
      (case UserModel_findById st userId of
         None \<Rightarrow> Inl (Error ''User not found'')
       | Some u \<Rightarrow>
      (case CommentModel_findById st (idParam (http req)) of Inl err \<Rightarrow> Inl err
       | Inr None \<Rightarrow> Inl (Error ''Comment not found'')
       | Inr (Some commentDetails) \<Rightarrow>
           if c_owner commentDetails \<noteq> userId
           then Inl (Error ''Unauthorized: Only the owner can edit this comment'')
           else
      (case blankContent (field req ''content'') of Inl err \<Rightarrow> Inl err
       | Inr True \<Rightarrow> Inl (Error ''Please enter valid comment content'')
       | Inr False \<Rightarrow>
           (let savedComment = commentDetails\<lparr>c_content := stringOf (field req ''content'')\<rparr>
            in Inr (reply 200 (CommentJson savedComment),
                    st\<lparr>comments := updateOne c_id (c_id commentDetails) (\<lambda>_. savedComment) (comments st)\<rparr>))))))"

definition commentEdit :: "state \<Rightarrow> request \<Rightarrow> response \<times> state" where
  "commentEdit st req = catch 400 ''Unable to edit the comment'' st (commentEdit_try st req)"

section \<open>The read views of the user router\<close>

text \<open>
  The aggregation operator \<open>$in\<close> applied to \<open>req.user?._id\<close> and the subscriber ids: an
  undefined first operand reaches the store as null, which is no ObjectId of the list.
\<close>

definition inExpr :: "objectId option \<Rightarrow> objectId list \<Rightarrow> bool" where
  "inExpr v xs = (case v of None \<Rightarrow> False | Some i \<Rightarrow> i \<in> set xs)"

definition channelPipeline :: "state \<Rightarrow> request \<Rightarrow> iuser \<Rightarrow> channel_view" where
  "channelPipeline st req u =
     (let subscribers = filter (\<lambda>s. channel s = u_id u) (subscriptions st);
          subscribedTo = filter (\<lambda>s. subscriber s = u_id u) (subscriptions st)
      in \<lparr>cv_id = u_id u, cv_username = username u, cv_avatar = avatar u,
          cv_coverImage = coverImage u, cv_isPremium = isPremium u, cv_email = email u,
          subscribersCount = length subscribers,
          subscribedToCount = length subscribedTo,
          isSubscribed = inExpr (map_option u_id (user req)) (map subscriber subscribers)\<rparr>)"

definition channelView_try :: "state \<Rightarrow> request \<Rightarrow> js_error + response \<times> state" where
  "channelView_try st req =
     (let username' = usernameParam (http req) in
      if trim username' = [] then Inl (Error ''Username not found'')
      else
        (let channels = map (channelPipeline st req)
                         (filter (\<lambda>u. username u = toLowerCase username') (users st))
         in if channels = [] then Inl (Error ''Channel not found.'')
            else Inr (reply 200 (ChannelJson channels), st)))"

definition channelView :: "state \<Rightarrow> request \<Rightarrow> response \<times> state" where
  "channelView st req =
     (case channelView_try st req of
        Inl err \<Rightarrow> (reply 400 (Text (''Unable to fetch the channel Details :: ERROR : '' @ message err)), st)
      | Inr ok \<Rightarrow> ok)"

text \<open>
  The history pipeline. A \<open>$lookup\<close> whose \<open>localField\<close> is an array selects the documents of
  the foreign collection whose \<open>_id\<close> is an element of the array, as they lie in that
  collection; the inner \<open>$lookup\<close> with \<open>$project\<close> and \<open>$first\<close> attaches the first account
  with the video's owner id, cut down to \<open>_id\<close>, \<open>username\<close> and \<open>avatar\<close>.
\<close>

definition ownerProject :: "iuser \<Rightarrow> owner_view" where
  "ownerProject u = \<lparr>ov_id = u_id u, ov_username = username u, ov_avatar = avatar u\<rparr>"

definition historyEntry :: "state \<Rightarrow> ivideo \<Rightarrow> history_entry" where
  "historyEntry st v =
     \<lparr>h_video = v, h_owner = map_option ownerProject (find (\<lambda>u. u_id u = v_owner v) (users st))\<rparr>"

definition historyLookup :: "state \<Rightarrow> iuser \<Rightarrow> history_entry list" where
  "historyLookup st u =
     map (historyEntry st) (filter (\<lambda>v. v_id v \<in> set (watchHistory u)) (videos st))"

definition history_try :: "state \<Rightarrow> request \<Rightarrow> js_error + response \<times> state" where
  "history_try st req =
     (case req_user_id req of Inl err \<Rightarrow> Inl err | Inr currentUserId \<Rightarrow>
      (case filter (\<lambda>u. u_id u = currentUserId) (users st) of
         [] \<Rightarrow> Inl (undefinedRead ''watchHistory'')
       | u # _ \<Rightarrow> Inr (reply 200 (HistoryJson (historyLookup st u)), st)))"

definition history :: "state \<Rightarrow> request \<Rightarrow> response \<times> state" where
  "history st req =
     (case history_try st req of
        Inl err \<Rightarrow> (reply 400 (Text (''Unable to fetch the watch History :: ERROR : '' @ message err)), st)
      | Inr ok \<Rightarrow> ok)"

section \<open>Registration and login\<close>

text \<open>\<open>fields.some((field) => field?.trim() === "")\<close>, left to right.\<close>

fun someBlank :: "jsval list \<Rightarrow> js_error + bool" where
  "someBlank [] = Inr False"
| "someBlank (f # fs) =
     (case optTrim ''field'' f of
        Inl err \<Rightarrow> Inl err
      | Inr v \<Rightarrow> if v = JString [] then Inr True else someBlank fs)"

definition allFieldsRequired :: "jsval list \<Rightarrow> js_error + unit" where
  "allFieldsRequired fs =
     (case someBlank fs of
        Inl err \<Rightarrow> Inl err
      | Inr True \<Rightarrow> Inl (Error ''All fields are required'')
      | Inr False \<Rightarrow> Inr ())"

text \<open>The first statement of the registration handler's \<open>try\<close> block.\<close>

definition register_validate :: "request \<Rightarrow> js_error + unit" where
  "register_validate req =
     allFieldsRequired [field req ''username'', field req ''email'', field req ''password'']"

definition login_validate :: "request \<Rightarrow> js_error + unit" where
  "login_validate req = allFieldsRequired [field req ''email'', field req ''password'']"

definition getJWT :: "env \<Rightarrow> iuser \<Rightarrow> token" where
  "getJWT e u = Token (u_id u) (secretKey e) (now e + 8 * 3600)"

definition validatePassword :: "env \<Rightarrow> iuser \<Rightarrow> jsval \<Rightarrow> js_error + bool" where
  "validatePassword e u passwordInputByUser =
     (case bcryptCompare e passwordInputByUser (password u) of
        Inl err \<Rightarrow> Inl (Error (''Error while validating Password : '' @ name err @ '': '' @ message err))
      | Inr ok \<Rightarrow> Inr ok)"

text \<open>The login handler after its validation.\<close>

definition login_credentials :: "env \<Rightarrow> state \<Rightarrow> request \<Rightarrow> js_error + response \<times> state" where
  "login_credentials e st req =
     (case findOneByEmail e (users st) (field req ''email'') of Inl err \<Rightarrow> Inl err
      | Inr None \<Rightarrow> Inl (Error ''Invalid Credentials - email'')
      | Inr (Some u) \<Rightarrow>
          (case validatePassword e u (field req ''password'') of Inl err \<Rightarrow> Inl err
           | Inr False \<Rightarrow> Inl (Error ''Invalid Credentials - password'')
           | Inr True \<Rightarrow>
               Inr (\<lparr>status = 200, payload = UserJson u, setCookie = Some (getJWT e u)\<rparr>, st)))"

definition login_try :: "env \<Rightarrow> state \<Rightarrow> request \<Rightarrow> js_error + response \<times> state" where
  "login_try e st req =
     (case login_validate req of
        Inl err \<Rightarrow> Inl err
      | Inr _ \<Rightarrow> login_credentials e st req)"

definition login :: "env \<Rightarrow> state \<Rightarrow> request \<Rightarrow> response \<times> state" where
  "login e st req =
     (case login_try e st req of
        Inl err \<Rightarrow> (reply 400 (Text (''Unable to logged in the user :: ERROR : '' @ message err)), st)
      | Inr ok \<Rightarrow> ok)"

section \<open>The routers\<close>

text \<open>
  The routes as the routers register them: each with the middlewares it names. The channel
  view, the history view and the login are registered without \<open>authenticateUser\<close>; the video
  edit runs the upload middleware after it.
\<close>

datatype endpoint =
    VideoDelete | VideoEdit | VideoComment
  | TweetUpload | TweetDelete | TweetEdit
  | CommentDelete | CommentEdit
  | ToggleLike kind
  | ChannelView | History | Login

fun serve :: "endpoint \<Rightarrow> env \<Rightarrow> state \<Rightarrow> request \<Rightarrow> response \<times> state" where
  "serve VideoDelete e st req = protected videoDelete e st req"
| "serve VideoEdit e st req = protected (uploaded e (videoEdit e)) e st req"
| "serve VideoComment e st req = protected videoComment e st req"
| "serve TweetUpload e st req = protected tweetUpload e st req"
| "serve TweetDelete e st req = protected tweetDelete e st req"
| "serve TweetEdit e st req = protected (tweetEdit e) e st req"
| "serve CommentDelete e st req = protected commentDelete e st req"
| "serve CommentEdit e st req = protected commentEdit e st req"
| "serve (ToggleLike k) e st req = toggleLikeRoute k e st req"
| "serve ChannelView e st req = channelView st req"
| "serve History e st req = history st req"
| "serve Login e st req = login e st req"

section \<open>Vocabulary of the properties\<close>

definition target :: "kind \<Rightarrow> ilike \<Rightarrow> objectId option" where
  "target k l = (case k of OnVideo \<Rightarrow> video l | OnTweet \<Rightarrow> tweet l | OnComment \<Rightarrow> comment l)"

definition targetExists :: "kind \<Rightarrow> state \<Rightarrow> objectId \<Rightarrow> bool" where
  "targetExists k st t =
     (case k of OnVideo \<Rightarrow> list_ex (\<lambda>v. v_id v = t) (videos st)
      | OnTweet \<Rightarrow> list_ex (\<lambda>x. t_id x = t) (tweets st)
      | OnComment \<Rightarrow> list_ex (\<lambda>c. c_id c = t) (comments st))"

text \<open>The Like rows of account \<open>a\<close> for the target \<open>t\<close> of kind \<open>k\<close>.\<close>

definition rowsFor :: "kind \<Rightarrow> objectId \<Rightarrow> objectId \<Rightarrow> ilike list \<Rightarrow> ilike list" where
  "rowsFor k a t ls = filter (\<lambda>l. target k l = Some t \<and> likedBy l = a) ls"

text \<open>The row a first like writes.\<close>

definition newLikeFor :: "kind \<Rightarrow> state \<Rightarrow> objectId \<Rightarrow> objectId \<Rightarrow> ilike" where
  "newLikeFor k st a t =
     \<lparr>l_id = nextId st, isLiked = True, likedBy = a,
      comment = (if k = OnComment then Some t else None),
      video = (if k = OnVideo then Some t else None),
      tweet = (if k = OnTweet then Some t else None)\<rparr>"

text \<open>At most one row for the account and each target of every row of the collection.\<close>

definition onePerPair :: "ilike list \<Rightarrow> bool" where
  "onePerPair ls =
     list_all (\<lambda>l. list_all (\<lambda>k. case target k l of None \<Rightarrow> True
                                     | Some t \<Rightarrow> length (rowsFor k (likedBy l) t ls) \<le> 1)
                          [OnVideo, OnTweet, OnComment]) ls"

text \<open>
  The invariant of the likes collection: distinct \<open>_id\<close>s, all below the next fresh one, and
  at most one row for every account and target.
\<close>

definition likesWf :: "state \<Rightarrow> bool" where
  "likesWf st =
     (distinct (map l_id (likes st)) \<and> list_all (\<lambda>l. l_id l < nextId st) (likes st) \<and>
      onePerPair (likes st))"

text \<open>The session of a request resolves to the account \<open>a\<close>.\<close>

definition resolvesTo :: "env \<Rightarrow> state \<Rightarrow> request \<Rightarrow> iuser \<Rightarrow> bool" where
  "resolvesTo e st req a = (authenticate_try e st req = Inr a)"

text \<open>The upload middleware, where a route runs it, lets the request through to the handler.\<close>

definition uploadAdmits :: "endpoint \<Rightarrow> env \<Rightarrow> request \<Rightarrow> bool" where
  "uploadAdmits ep e req =
     (case ep of VideoEdit \<Rightarrow> (case uploadThumbnail e req of Inl err \<Rightarrow> False | Inr r \<Rightarrow> True)
      | _ \<Rightarrow> True)"

text \<open>The value of the session cookie, \<open>req.cookies[cookieName]\<close>.\<close>

definition sessionCookie :: "request \<Rightarrow> token option" where
  "sessionCookie req = map_of (cookies (http req)) cookieName"

text \<open>The six owner-gated routes, the owner of the resource a request names, and their messages.\<close>

definition ownerGated :: "endpoint list" where
  "ownerGated = [VideoDelete, VideoEdit, TweetDelete, TweetEdit, CommentDelete, CommentEdit]"

fun resourceOwner :: "endpoint \<Rightarrow> state \<Rightarrow> objectId \<Rightarrow> objectId option" where
  "resourceOwner VideoDelete st i = map_option v_owner (find (\<lambda>v. v_id v = i) (videos st))"
| "resourceOwner VideoEdit st i = map_option v_owner (find (\<lambda>v. v_id v = i) (videos st))"
| "resourceOwner TweetDelete st i = map_option t_owner (find (\<lambda>t. t_id t = i) (tweets st))"
| "resourceOwner TweetEdit st i = map_option t_owner (find (\<lambda>t. t_id t = i) (tweets st))"
| "resourceOwner CommentDelete st i = map_option c_owner (find (\<lambda>c. c_id c = i) (comments st))"
| "resourceOwner CommentEdit st i = map_option c_owner (find (\<lambda>c. c_id c = i) (comments st))"
| "resourceOwner ep st i = None"

fun notFoundMessage :: "endpoint \<Rightarrow> string" where
  "notFoundMessage VideoDelete = ''Video not found.''"
| "notFoundMessage VideoEdit = ''Video not found.''"
| "notFoundMessage TweetDelete = ''Tweet not found.''"
| "notFoundMessage TweetEdit = ''Tweet not found.''"
| "notFoundMessage CommentDelete = ''Comment not found''"
| "notFoundMessage CommentEdit = ''Comment not found''"
| "notFoundMessage ep = []"

fun unauthorizedMessage :: "endpoint \<Rightarrow> string" where
  "unauthorizedMessage VideoDelete = ''Unauthorized: Only the owner can delete this video.''"
| "unauthorizedMessage VideoEdit = ''Unauthorized: Only the owner can edit this video.''"
| "unauthorizedMessage TweetDelete = ''Unauthorized: Only the owner can delete this tweet.''"
| "unauthorizedMessage TweetEdit = ''Unauthorized: Only the owner can delete this tweet.''"
| "unauthorizedMessage CommentDelete = ''Unauthorized: Only the comment owner can delete this comment''"
| "unauthorizedMessage CommentEdit = ''Unauthorized: Only the owner can edit this comment''"
| "unauthorizedMessage ep = []"

text \<open>A failure response: its \<open>error\<close> text, when it is a \<open>{message, error}\<close> pair.\<close>

fun errorText :: "response \<Rightarrow> string option" where
  "errorText r = (case payload r of ErrorJson m err \<Rightarrow> Some err | _ \<Rightarrow> None)"

text \<open>
  What the guard of an owner-gated route does with the request of account \<open>a\<close>, \<open>R\<close> being
  the route's result: the existence check first, then the owner check, then the mutation.
\<close>

definition guardSpec :: "endpoint \<Rightarrow> state \<Rightarrow> request \<Rightarrow> iuser \<Rightarrow> response \<times> state \<Rightarrow> bool" where
  "guardSpec ep st req a R =
   ((\<forall>i. idParam (http req) = IdOk i \<and> resourceOwner ep st i = None \<longrightarrow>
        errorText (fst R) = Some (notFoundMessage ep) \<and> snd R = st) \<and>
    (idParam (http req) = IdBad \<longrightarrow>
        errorText (fst R) = Some (message castFailed) \<and> snd R = st) \<and>
    (\<forall>i ow. idParam (http req) = IdOk i \<and> resourceOwner ep st i = Some ow \<and> ow \<noteq> u_id a \<longrightarrow>
        errorText (fst R) = Some (unauthorizedMessage ep) \<and> snd R = st) \<and>
    (snd R \<noteq> st \<longrightarrow> (\<exists>i. idParam (http req) = IdOk i \<and> resourceOwner ep st i = Some (u_id a))))"

definition isErrorJson :: "response \<Rightarrow> bool" where
  "isErrorJson r = (case payload r of ErrorJson m err \<Rightarrow> True | _ \<Rightarrow> False)"

definition isText :: "response \<Rightarrow> bool" where
  "isText r = (case payload r of Text m \<Rightarrow> True | _ \<Rightarrow> False)"

definition isAuthFailure :: "response \<Rightarrow> bool" where
  "isAuthFailure r = (case payload r of AuthFailure m \<Rightarrow> True | _ \<Rightarrow> False)"

text \<open>The two outcomes of a handler whose \<open>catch\<close> block answers 400 with \<open>{message, error}\<close>.\<close>

definition okOrError :: "state \<Rightarrow> response \<times> state \<Rightarrow> bool" where
  "okOrError st R =
     ((status (fst R) = 400 \<and> isErrorJson (fst R) \<and> snd R = st) \<or>
      ((status (fst R) = 200 \<or> status (fst R) = 201) \<and> \<not> isErrorJson (fst R)))"

text \<open>The two outcomes of a handler whose \<open>catch\<close> block answers 400 with a text.\<close>

definition okOrText :: "state \<Rightarrow> response \<times> state \<Rightarrow> bool" where
  "okOrText st R =
     ((status (fst R) = 400 \<and> isText (fst R) \<and> snd R = st) \<or>
      (status (fst R) = 200 \<and> \<not> isText (fst R)))"

text \<open>The routes whose \<open>catch\<close> block answers with status 400 and a \<open>{message, error}\<close> pair.\<close>

definition jsonRoutes :: "endpoint list" where
  "jsonRoutes =
     [VideoEdit, VideoComment, TweetUpload, TweetDelete, TweetEdit, CommentDelete, CommentEdit,
      ToggleLike OnVideo, ToggleLike OnTweet, ToggleLike OnComment]"

text \<open>The routes whose \<open>catch\<close> block answers with status 400 and a text.\<close>

definition textRoutes :: "endpoint list" where
  "textRoutes = [ChannelView, History, Login]"

text \<open>The video ids of a history response, in the order of the response.\<close>

definition historyIds :: "response \<Rightarrow> objectId list" where
  "historyIds r = (case payload r of HistoryJson hs \<Rightarrow> map (\<lambda>h. v_id (h_video h)) hs | _ \<Rightarrow> [])"

text \<open>The channel documents of a channel-view response.\<close>

definition channelsOf :: "response \<Rightarrow> channel_view list" where
  "channelsOf r = (case payload r of ChannelJson vs \<Rightarrow> vs | _ \<Rightarrow> [])"

section \<open>A small database for the examples\<close>

definition alice :: iuser where
  "alice = \<lparr>u_id = 1, username = ''alice'', email = ''alice@example.com'', isPremium = False,
            avatar = ''alice.png'', coverImage = ''cover.png'', password = ''hash-a'',
            watchHistory = [12, 11, 12]\<rparr>"

definition bob :: iuser where
  "bob = \<lparr>u_id = 2, username = ''bob'', email = ''bob@example.com'', isPremium = False,
          avatar = ''bob.png'', coverImage = ''cover.png'', password = ''hash-b'',
          watchHistory = []\<rparr>"

definition video11 :: ivideo where
  "video11 = \<lparr>v_id = 11, videoSrc = ''v11.mp4'', thumbnail = ''t11.png'', v_owner = 1,
              title = ''First'', description = ''d'', duration = ''1:00'', views = 0\<rparr>"

definition video12 :: ivideo where
  "video12 = \<lparr>v_id = 12, videoSrc = ''v12.mp4'', thumbnail = ''t12.png'', v_owner = 2,
              title = ''Second'', description = ''d'', duration = ''2:00'', views = 0\<rparr>"

definition db :: state where
  "db = \<lparr>users = [alice, bob], videos = [video11, video12],
         tweets = [\<lparr>t_id = 21, t_content = ''hello'', t_owner = 1\<rparr>],
         comments = [\<lparr>c_id = 31, c_content = ''nice'', c_video = 11, c_owner = 1\<rparr>],
         likes = [],
         subscriptions = [\<lparr>s_id = 41, subscriber = 2, channel = 1\<rparr>],
         nextId = 100\<rparr>"

definition world :: env where
  "world = \<lparr>secretKey = ''secret'', now = 1000,
            extname = (\<lambda>n. if CHR ''.'' \<in> set n
                            then CHR ''.'' # rev (takeWhile (\<lambda>c. c \<noteq> CHR ''.'') (rev n))
                            else []),
            uploadOnCloudinary = (\<lambda>p. Inr (''https://cdn/'' @ p)),
            castString = (\<lambda>v. Inl (CastError ''Cast to string failed'')),
            bcryptCompare = (\<lambda>v h. case v of JString s \<Rightarrow> Inr (''hash-'' @ s = h)
                                     | _ \<Rightarrow> Inl (Error ''data and hash arguments required'')),
            findOneByEmail = (\<lambda>us v. case v of JString s \<Rightarrow> Inr (find (\<lambda>u. email u = s) us)
                                      | _ \<Rightarrow> Inr None)\<rparr>"

text \<open>A client request: the session cookie, the path parameters and the JSON body.\<close>

definition client :: "token option \<Rightarrow> param \<Rightarrow> string \<Rightarrow> (string \<times> jsval) list \<Rightarrow> request" where
  "client tok p uname b =
     incoming \<lparr>cookies = (case tok of None \<Rightarrow> [] | Some t \<Rightarrow> [(''yt-Token'', t)]),
               idParam = p, usernameParam = uname, body = b, thumbnailUpload = None\<rparr>"

definition bobsToken :: token where
  "bobsToken = Token 2 ''secret'' 5000"

definition alicesToken :: token where
  "alicesToken = Token 1 ''secret'' 5000"


section \<open>Lemmas on the store and the session\<close>


lemma find_filter: "find P xs = (case filter P xs of [] \<Rightarrow> None | x # _ \<Rightarrow> Some x)"
  by (induction xs) auto

lemma list_ex_find: "list_ex P xs \<Longrightarrow> \<exists>x. find P xs = Some x \<and> P x"
  by (induction xs) auto

lemma resolves_findById:
  "authenticate_try e st req = Inr a \<Longrightarrow> UserModel_findById st (u_id a) = Some a"
  by (auto simp: authenticate_try_def UserModel_findById_def Let_def find_Some_iff
      split: if_splits sum.splits option.splits)

lemma LikeModel_save_new_ok:
  "LikeModel_save_new st l = Inr (st\<lparr>likes := likes st @ [l], nextId := Suc (nextId st)\<rparr>)"
  by (simp add: LikeModel_save_new_def insertOne_def LikeSchema_indexes_def)

text \<open>Generic characterisation of the handler once the user and the target are found.\<close>
lemma toggleLike_handler:
  assumes u: "user req = Some a" "UserModel_findById st (u_id a) = Some a'"
    and p: "idParam (http req) = IdOk t" and ex: "targetExists k st t"
    and b: "field req ''toggleLike'' = JBool d"
  shows "toggleLike k st req =
     (case rowsFor k (u_id a) t (likes st) of
        row # _ \<Rightarrow> (reply 201 (LikeJson (row\<lparr>isLiked := d\<rparr>)), LikeModel_save_isLiked st row d)
      | [] \<Rightarrow> if \<not> d then (reply 400 (ErrorJson ''Unable to toggle the like'' ''No like exists to remove.''), st)
              else (reply 201 (LikeJson (newLikeFor k st (u_id a) t)),
                    st\<lparr>likes := likes st @ [newLikeFor k st (u_id a) t], nextId := Suc (nextId st)\<rparr>))"
proof (cases k)
  case OnVideo
  from ex OnVideo obtain v where v: "find (\<lambda>v. v_id v = t) (videos st) = Some v" "v_id v = t"
    by (auto simp: targetExists_def dest!: list_ex_find)
  show ?thesis using u p b v OnVideo
    by (auto simp: toggleLike_def videoToggleLike_def videoToggleLike_try_def catch_def req_user_id_def
        VideoModel_findById_def LikeModel_save_new_ok rowsFor_def target_def newLikeFor_def find_filter Let_def
        split: list.splits)
next
  case OnTweet
  from ex OnTweet obtain v where v: "find (\<lambda>v. t_id v = t) (tweets st) = Some v" "t_id v = t"
    by (auto simp: targetExists_def dest!: list_ex_find)
  show ?thesis using u p b v OnTweet
    by (auto simp: toggleLike_def tweetToggleLike_def tweetToggleLike_try_def catch_def req_user_id_def
        TweetModel_findById_def LikeModel_save_new_ok rowsFor_def target_def newLikeFor_def find_filter Let_def
        split: list.splits)
next
  case OnComment
  from ex OnComment obtain v where v: "find (\<lambda>v. c_id v = t) (comments st) = Some v" "c_id v = t"
    by (auto simp: targetExists_def dest!: list_ex_find)
  show ?thesis using u p b v OnComment
    by (auto simp: toggleLike_def commentToggleLike_def commentToggleLike_try_def catch_def req_user_id_def
        CommentModel_findById_def LikeModel_save_new_ok rowsFor_def target_def newLikeFor_def find_filter Let_def
        split: list.splits)
qed


lemma updateOne_map:
  "distinct (map key ls) \<Longrightarrow> updateOne key i f ls = map (\<lambda>d. if key d = i then f d else d) ls"
proof (induction ls)
  case Nil
  then show ?case by simp
next
  case (Cons d ds)
  show ?case
  proof (cases "key d = i")
    case True
    with Cons.prems have "i \<notin> key ` set ds" by simp
    then have "\<forall>x \<in> set ds. key x \<noteq> i" by blast
    then have "map (\<lambda>d. if key d = i then f d else d) ds = ds"
      by (simp add: map_idI)
    with True show ?thesis by simp
  next
    case False
    with Cons show ?thesis by simp
  qed
qed

lemma rowsFor_map_isLiked:
  "rowsFor k a t (map (\<lambda>d. if l_id d = i then d\<lparr>isLiked := b\<rparr> else d) ls) =
   map (\<lambda>d. if l_id d = i then d\<lparr>isLiked := b\<rparr> else d) (rowsFor k a t ls)"
  by (induction ls) (auto simp: rowsFor_def target_def split: kind.splits)

lemma onePerPair_iff: "onePerPair ls \<longleftrightarrow> (\<forall>k a t. length (rowsFor k a t ls) \<le> 1)"
proof
  assume one: "onePerPair ls"
  show "\<forall>k a t. length (rowsFor k a t ls) \<le> 1"
  proof (intro allI)
    fix k a t
    show "length (rowsFor k a t ls) \<le> 1"
    proof (cases "rowsFor k a t ls")
      case Nil
      then show ?thesis by simp
    next
      case (Cons l rest)
      then have "l \<in> set (rowsFor k a t ls)" by simp
      then have l: "l \<in> set ls" "target k l = Some t" "likedBy l = a"
        by (simp_all add: rowsFor_def)
      have "k \<in> set [OnVideo, OnTweet, OnComment]" by (cases k) simp_all
      with one l show ?thesis
        by (fastforce simp: onePerPair_def list_all_iff)
    qed
  qed
next
  assume "\<forall>k a t. length (rowsFor k a t ls) \<le> 1"
  then show "onePerPair ls"
    by (simp add: onePerPair_def list_all_iff split: option.splits)
qed

lemma likesWf_alt:
  "likesWf st \<longleftrightarrow>
     distinct (map l_id (likes st)) \<and> (\<forall>l \<in> set (likes st). l_id l < nextId st) \<and>
     (\<forall>k a t. length (rowsFor k a t (likes st)) \<le> 1)"
  by (simp add: likesWf_def onePerPair_iff list_all_iff)

lemma likesWf_update:
  assumes "likesWf st"
  shows "likesWf (LikeModel_save_isLiked st row d)"
proof -
  from assms have dist: "distinct (map l_id (likes st))" by (simp add: likesWf_alt)
  let ?g = "\<lambda>x. if l_id x = l_id row then x\<lparr>isLiked := d\<rparr> else x"
  have eq: "likes (LikeModel_save_isLiked st row d) = map ?g (likes st)"
    by (simp add: LikeModel_save_isLiked_def updateOne_map[OF dist])
  have ids: "map l_id (map ?g (likes st)) = map l_id (likes st)"
    by (induction "likes st") auto
  have nx: "nextId (LikeModel_save_isLiked st row d) = nextId st"
    by (simp add: LikeModel_save_isLiked_def)
  have "\<forall>l \<in> set (map ?g (likes st)). l_id l < nextId st"
    using assms by (auto simp: likesWf_alt)
  moreover have "\<forall>k a t. length (rowsFor k a t (map ?g (likes st))) \<le> 1"
    using assms by (simp add: rowsFor_map_isLiked likesWf_alt)
  ultimately show ?thesis
    using dist unfolding likesWf_alt eq nx ids by blast
qed

lemma rowsFor_append: "rowsFor k a t (xs @ ys) = rowsFor k a t xs @ rowsFor k a t ys"
  by (simp add: rowsFor_def)

lemma rowsFor_new:
  "rowsFor k' a' t' [newLikeFor k st a t] = (if k' = k \<and> a' = a \<and> t' = t then [newLikeFor k st a t] else [])"
  by (cases k; cases k') (auto simp: rowsFor_def newLikeFor_def target_def)

lemma likesWf_insert:
  assumes "likesWf st" "rowsFor k a t (likes st) = []"
  shows "likesWf (st\<lparr>likes := likes st @ [newLikeFor k st a t], nextId := Suc (nextId st)\<rparr>)"
  using assms unfolding likesWf_alt
  apply (intro conjI)
    apply (auto simp: newLikeFor_def)[1]
   apply (auto simp: newLikeFor_def less_Suc_eq)[1]
  apply (auto simp: rowsFor_append rowsFor_new)
  done


lemma field_user_update [simp]: "field (req\<lparr>user := x\<rparr>) k = field req k"
  by (simp add: field_def)

lemma route_resolved:
  "authenticate_try e st req = Inr a \<Longrightarrow> protected h e st req = h st (req\<lparr>user := Some a\<rparr>)"
  by (simp add: protected_def authenticateUser_def)

lemma route_unresolved:
  "authenticate_try e st req = Inl err \<Longrightarrow> snd (protected h e st req) = st \<and> status (fst (protected h e st req)) = 401"
  by (simp add: protected_def authenticateUser_def reply_def)

lemma toggleLike_shape:
  "snd (toggleLike k st req) = st \<or>
   (\<exists>row d. snd (toggleLike k st req) = LikeModel_save_isLiked st row d) \<or>
   (\<exists>a t. user req = Some a \<and> idParam (http req) = IdOk t \<and> rowsFor k (u_id a) t (likes st) = [] \<and>
      snd (toggleLike k st req) =
        st\<lparr>likes := likes st @ [newLikeFor k st (u_id a) t], nextId := Suc (nextId st)\<rparr>)"
proof (cases k)
  case OnVideo
  then show ?thesis
    by (auto simp: toggleLike_def videoToggleLike_def videoToggleLike_try_def catch_def req_user_id_def
        VideoModel_findById_def LikeModel_save_new_ok rowsFor_def target_def newLikeFor_def Let_def
        find_None_iff find_Some_iff filter_empty_conv
        split: option.splits sum.splits param.splits jsval.splits)
next
  case OnTweet
  then show ?thesis
    by (auto simp: toggleLike_def tweetToggleLike_def tweetToggleLike_try_def catch_def req_user_id_def
        TweetModel_findById_def LikeModel_save_new_ok rowsFor_def target_def newLikeFor_def Let_def
        find_None_iff find_Some_iff filter_empty_conv
        split: option.splits sum.splits param.splits jsval.splits)
next
  case OnComment
  then show ?thesis
    by (auto simp: toggleLike_def commentToggleLike_def commentToggleLike_try_def catch_def req_user_id_def
        CommentModel_findById_def LikeModel_save_new_ok rowsFor_def target_def newLikeFor_def Let_def
        find_None_iff find_Some_iff filter_empty_conv
        split: option.splits sum.splits param.splits jsval.splits)
qed

lemma toggleLike_likesWf:
  assumes "likesWf st"
  shows "likesWf (snd (toggleLike k st req))"
  using toggleLike_shape[of k st req] assms
  by (auto simp: likesWf_update likesWf_insert)

lemma length_updateOne: "length (updateOne key i f ls) = length ls"
  by (induction ls) auto

lemma length_save_isLiked: "length (likes (LikeModel_save_isLiked st row d)) = length (likes st)"
  by (simp add: LikeModel_save_isLiked_def length_updateOne)


lemma toggleLike_others:
  "users (snd (toggleLike k st req)) = users st \<and> videos (snd (toggleLike k st req)) = videos st \<and>
   tweets (snd (toggleLike k st req)) = tweets st \<and> comments (snd (toggleLike k st req)) = comments st"
  using toggleLike_shape[of k st req]
  by (elim disjE exE conjE) (simp_all add: LikeModel_save_isLiked_def)

lemma route_cases:
  obtains (denied) "snd (toggleLikeRoute k e st req) = st"
  | (resolved) a where "authenticate_try e st req = Inr a"
      "toggleLikeRoute k e st req = toggleLike k st (req\<lparr>user := Some a\<rparr>)"
proof (cases "authenticate_try e st req")
  case (Inl err)
  then have "snd (toggleLikeRoute k e st req) = st"
    unfolding toggleLikeRoute_def using route_unresolved[OF Inl] by simp
  then show ?thesis by (rule denied)
next
  case (Inr a)
  then show ?thesis
    using resolved[of a] route_resolved[OF Inr] unfolding toggleLikeRoute_def by simp
qed

lemma route_others:
  "users (snd (toggleLikeRoute k e st req)) = users st \<and> videos (snd (toggleLikeRoute k e st req)) = videos st \<and>
   tweets (snd (toggleLikeRoute k e st req)) = tweets st \<and> comments (snd (toggleLikeRoute k e st req)) = comments st"
proof (cases rule: route_cases[of k e st req])
  case denied
  then show ?thesis by simp
next
  case (resolved a)
  then show ?thesis by (simp only: toggleLike_others)
qed

lemma route_likesWf:
  assumes "likesWf st"
  shows "likesWf (snd (toggleLikeRoute k e st req))"
proof (cases rule: route_cases[of k e st req])
  case denied
  with assms show ?thesis by simp
next
  case (resolved a)
  with assms show ?thesis by (simp only: toggleLike_likesWf)
qed

lemma authenticate_try_users:
  assumes "users st' = users st"
  shows "authenticate_try e st' req = authenticate_try e st req"
  unfolding authenticate_try_def UserModel_findById_def assms by (rule refl)

lemma targetExists_cong:
  assumes "videos st' = videos st" "tweets st' = tweets st" "comments st' = comments st"
  shows "targetExists k st' t = targetExists k st t"
  unfolding targetExists_def assms by (rule refl)

lemma route_handler:
  assumes "resolvesTo e st req a" "idParam (http req) = IdOk t" "targetExists k st t"
    "field req ''toggleLike'' = JBool d"
  shows "toggleLikeRoute k e st req =
     (case rowsFor k (u_id a) t (likes st) of
        row # _ \<Rightarrow> (reply 201 (LikeJson (row\<lparr>isLiked := d\<rparr>)), LikeModel_save_isLiked st row d)
      | [] \<Rightarrow> if \<not> d then (reply 400 (ErrorJson ''Unable to toggle the like'' ''No like exists to remove.''), st)
              else (reply 201 (LikeJson (newLikeFor k st (u_id a) t)),
                    st\<lparr>likes := likes st @ [newLikeFor k st (u_id a) t], nextId := Suc (nextId st)\<rparr>))"
proof -
  from assms(1) have r: "authenticate_try e st req = Inr a" by (simp add: resolvesTo_def)
  have "toggleLikeRoute k e st req = toggleLike k st (req\<lparr>user := Some a\<rparr>)"
    by (simp add: toggleLikeRoute_def route_resolved[OF r])
  also have "\<dots> = (case rowsFor k (u_id a) t (likes st) of
        row # _ \<Rightarrow> (reply 201 (LikeJson (row\<lparr>isLiked := d\<rparr>)), LikeModel_save_isLiked st row d)
      | [] \<Rightarrow> if \<not> d then (reply 400 (ErrorJson ''Unable to toggle the like'' ''No like exists to remove.''), st)
              else (reply 201 (LikeJson (newLikeFor k st (u_id a) t)),
                    st\<lparr>likes := likes st @ [newLikeFor k st (u_id a) t], nextId := Suc (nextId st)\<rparr>))"
    by (rule toggleLike_handler[where a'=a]) (use assms resolves_findById[OF r] in simp_all)
  finally show ?thesis .
qed

lemma rowsFor_save_isLiked:
  assumes "likesWf st" "rowsFor k a t (likes st) = [row]"
  shows "rowsFor k a t (likes (LikeModel_save_isLiked st row d)) = [row\<lparr>isLiked := d\<rparr>]"
proof -
  from assms have dist: "distinct (map l_id (likes st))" by (simp add: likesWf_alt)
  show ?thesis
    using assms(2)
    by (simp add: LikeModel_save_isLiked_def updateOne_map[OF dist] rowsFor_map_isLiked)
qed

text \<open>One resolved, well-formed toggle request: the rows of the pair before and after.\<close>
lemma route_step:
  assumes wf: "likesWf st" and rq: "resolvesTo e st req a" "idParam (http req) = IdOk t"
    "targetExists k st t" "field req ''toggleLike'' = JBool d"
  shows "(case rowsFor k (u_id a) t (likes st) of
            [] \<Rightarrow> if d then rowsFor k (u_id a) t (likes (snd (toggleLikeRoute k e st req))) = [newLikeFor k st (u_id a) t]
                   else snd (toggleLikeRoute k e st req) = st
          | row # _ \<Rightarrow> rowsFor k (u_id a) t (likes (snd (toggleLikeRoute k e st req))) = [row\<lparr>isLiked := d\<rparr>])"
proof (cases "rowsFor k (u_id a) t (likes st)")
  case Nil
  then show ?thesis
    by (simp add: route_handler[OF rq] rowsFor_append rowsFor_new)
next
  case (Cons row rest)
  from wf have "length (rowsFor k (u_id a) t (likes st)) \<le> 1" by (simp add: likesWf_alt)
  with Cons have one: "rowsFor k (u_id a) t (likes st) = [row]" by simp
  then show ?thesis
    by (simp add: route_handler[OF rq] rowsFor_save_isLiked[OF wf one])
qed

lemma route_step_liked:
  assumes wf: "likesWf st" and rq: "resolvesTo e st req a" "idParam (http req) = IdOk t"
    "targetExists k st t" "field req ''toggleLike'' = JBool True"
  shows "\<exists>row. rowsFor k (u_id a) t (likes (snd (toggleLikeRoute k e st req))) = [row] \<and> isLiked row"
  using route_step[OF wf rq]
  by (auto simp: newLikeFor_def split: list.splits)

lemma route_step_row:
  assumes wf: "likesWf st" and rq: "resolvesTo e st req a" "idParam (http req) = IdOk t"
    "targetExists k st t" "field req ''toggleLike'' = JBool d"
    and row: "rowsFor k (u_id a) t (likes st) = [row]"
  shows "rowsFor k (u_id a) t (likes (snd (toggleLikeRoute k e st req))) = [row\<lparr>isLiked := d\<rparr>]"
  using route_step[OF wf rq] row by simp

lemma resolvesTo_after:
  "resolvesTo e' st req' a \<Longrightarrow> resolvesTo e' (snd (toggleLikeRoute k e st req)) req' a"
  unfolding resolvesTo_def
  by (subst authenticate_try_users[where st = st]) (simp_all add: route_others)

lemma targetExists_after:
  "targetExists k' st t \<Longrightarrow> targetExists k' (snd (toggleLikeRoute k e st req)) t"
  by (subst targetExists_cong[where st = st]) (simp_all add: route_others)

lemma like_unlike_like:
  assumes wf: "likesWf st" and ex: "targetExists k st t"
    and r1: "resolvesTo e1 st req1 a" "idParam (http req1) = IdOk t" "field req1 ''toggleLike'' = JBool True"
    and r2: "resolvesTo e2 st req2 a" "idParam (http req2) = IdOk t" "field req2 ''toggleLike'' = JBool False"
    and r3: "resolvesTo e3 st req3 a" "idParam (http req3) = IdOk t" "field req3 ''toggleLike'' = JBool True"
  shows "\<exists>row. rowsFor k (u_id a) t
            (likes (snd (toggleLikeRoute k e3 (snd (toggleLikeRoute k e2 (snd (toggleLikeRoute k e1 st req1)) req2)) req3)))
          = [row] \<and> isLiked row"
proof -
  let ?st1 = "snd (toggleLikeRoute k e1 st req1)"
  let ?st2 = "snd (toggleLikeRoute k e2 ?st1 req2)"
  let ?st3 = "snd (toggleLikeRoute k e3 ?st2 req3)"
  have wf1: "likesWf ?st1" by (rule route_likesWf[OF wf])
  have wf2: "likesWf ?st2" by (rule route_likesWf[OF wf1])
  obtain row1 where row1: "rowsFor k (u_id a) t (likes ?st1) = [row1]"
    using route_step_liked[OF wf r1(1,2) ex r1(3)] by blast
  have ex1: "targetExists k ?st1 t" by (rule targetExists_after[OF ex])
  have ex2: "targetExists k ?st2 t" by (rule targetExists_after[OF ex1])
  have a2: "resolvesTo e2 ?st1 req2 a" by (rule resolvesTo_after[OF r2(1)])
  have a3: "resolvesTo e3 ?st2 req3 a" by (intro resolvesTo_after r3(1))
  have row2: "rowsFor k (u_id a) t (likes ?st2) = [row1\<lparr>isLiked := False\<rparr>]"
    by (rule route_step_row[OF wf1 a2 r2(2) ex1 r2(3) row1])
  have "rowsFor k (u_id a) t (likes ?st3) = [row1\<lparr>isLiked := False, isLiked := True\<rparr>]"
    by (rule route_step_row[OF wf2 a3 r3(2) ex2 r3(3) row2])
  then show ?thesis by simp
qed

lemmas example_defs =
  db_def world_def alice_def bob_def video11_def video12_def client_def incoming_def
  bobsToken_def alicesToken_def cookieName_def

lemmas session_defs =
  resolvesTo_def authenticate_try_def authenticateUser_def protected_def UserModel_findById_def
  reply_def field_def req_user_id_def

section \<open>The toggle state machine\<close>

text \<open>
  Claim C3. For an account whose session resolves, a target of any of the three kinds that
  exists, and a body with \<open>toggleLike = false\<close>: when no Like row exists for the pair, the
  route answers 400 with the error text "No like exists to remove." and leaves the database
  as it was, so no row is created.
\<close>

theorem unlike_without_row_fails:
  assumes "resolvesTo e st req a" "idParam (http req) = IdOk t" "targetExists k st t"
    "field req ''toggleLike'' = JBool False" "rowsFor k (u_id a) t (likes st) = []"
  shows "serve (ToggleLike k) e st req =
           (reply 400 (ErrorJson ''Unable to toggle the like'' ''No like exists to remove.''), st)"
  using assms(5) by (simp add: route_handler[OF assms(1-4)])

theorem unlike_without_row_fails_witness:
  "serve (ToggleLike OnVideo) world db (client (Some bobsToken) (IdOk 11) [] [(''toggleLike'', JBool False)]) =
     (reply 400 (ErrorJson ''Unable to toggle the like'' ''No like exists to remove.''), db) \<and>
   serve (ToggleLike OnTweet) world db (client (Some bobsToken) (IdOk 21) [] [(''toggleLike'', JBool False)]) =
     (reply 400 (ErrorJson ''Unable to toggle the like'' ''No like exists to remove.''), db) \<and>
   likes db = []"
proof -
  have v: "serve (ToggleLike OnVideo) world db (client (Some bobsToken) (IdOk 11) [] [(''toggleLike'', JBool False)]) =
     (reply 400 (ErrorJson ''Unable to toggle the like'' ''No like exists to remove.''), db)"
    by (rule unlike_without_row_fails[where a = bob and t = 11])
       (simp_all add: example_defs session_defs targetExists_def rowsFor_def)
  have t: "serve (ToggleLike OnTweet) world db (client (Some bobsToken) (IdOk 21) [] [(''toggleLike'', JBool False)]) =
     (reply 400 (ErrorJson ''Unable to toggle the like'' ''No like exists to remove.''), db)"
    by (rule unlike_without_row_fails[where a = bob and t = 21])
       (simp_all add: example_defs session_defs targetExists_def rowsFor_def)
  show ?thesis using v t by (simp add: db_def)
qed

text \<open>
  Claim C1. In a likes collection that satisfies the invariant (in particular: at most one
  row for every account and target), a toggle request of any kind keeps the invariant; when
  the pair has a row, the row is updated in place to the requested boolean and kept (also
  for false), the collection keeping its length; the collection grows only by one new row
  for a pair that had none; and like, unlike, like by one account on one target leaves
  exactly one row for the pair, with \<open>isLiked = true\<close>.
\<close>

theorem toggle_like_single_row:
  assumes wf: "likesWf st"
  shows "likesWf (snd (serve (ToggleLike k) e st req)) \<and>
    (\<forall>k' a t. length (rowsFor k' a t (likes (snd (serve (ToggleLike k) e st req)))) \<le> 1) \<and>
    (\<forall>a t d row. resolvesTo e st req a \<and> idParam (http req) = IdOk t \<and> targetExists k st t \<and>
        field req ''toggleLike'' = JBool d \<and> rowsFor k (u_id a) t (likes st) = [row] \<longrightarrow>
        fst (serve (ToggleLike k) e st req) = reply 201 (LikeJson (row\<lparr>isLiked := d\<rparr>)) \<and>
        length (likes (snd (serve (ToggleLike k) e st req))) = length (likes st) \<and>
        rowsFor k (u_id a) t (likes (snd (serve (ToggleLike k) e st req))) = [row\<lparr>isLiked := d\<rparr>]) \<and>
    (length (likes (snd (serve (ToggleLike k) e st req))) \<noteq> length (likes st) \<longrightarrow>
       (\<exists>a t. resolvesTo e st req a \<and> idParam (http req) = IdOk t \<and>
              rowsFor k (u_id a) t (likes st) = [] \<and>
              likes (snd (serve (ToggleLike k) e st req)) = likes st @ [newLikeFor k st (u_id a) t])) \<and>
    (\<forall>a t e2 req2 e3 req3.
        targetExists k st t \<and>
        resolvesTo e st req a \<and> idParam (http req) = IdOk t \<and> field req ''toggleLike'' = JBool True \<and>
        resolvesTo e2 st req2 a \<and> idParam (http req2) = IdOk t \<and> field req2 ''toggleLike'' = JBool False \<and>
        resolvesTo e3 st req3 a \<and> idParam (http req3) = IdOk t \<and> field req3 ''toggleLike'' = JBool True \<longrightarrow>
        (\<exists>row. rowsFor k (u_id a) t
                  (likes (snd (serve (ToggleLike k) e3
                     (snd (serve (ToggleLike k) e2 (snd (serve (ToggleLike k) e st req)) req2)) req3))) = [row]
               \<and> isLiked row))"
proof (intro conjI allI impI)
  show wf': "likesWf (snd (serve (ToggleLike k) e st req))"
    using route_likesWf[OF wf] by simp
  fix k' a t
  show "length (rowsFor k' a t (likes (snd (serve (ToggleLike k) e st req)))) \<le> 1"
    using wf' by (simp add: likesWf_alt)
next
  fix a t d row
  assume h: "resolvesTo e st req a \<and> idParam (http req) = IdOk t \<and> targetExists k st t \<and>
        field req ''toggleLike'' = JBool d \<and> rowsFor k (u_id a) t (likes st) = [row]"
  then have rq: "resolvesTo e st req a" "idParam (http req) = IdOk t" "targetExists k st t"
    "field req ''toggleLike'' = JBool d" and row: "rowsFor k (u_id a) t (likes st) = [row]"
    by simp_all
  have eq: "toggleLikeRoute k e st req =
      (reply 201 (LikeJson (row\<lparr>isLiked := d\<rparr>)), LikeModel_save_isLiked st row d)"
    using row by (simp add: route_handler[OF rq])
  show "fst (serve (ToggleLike k) e st req) = reply 201 (LikeJson (row\<lparr>isLiked := d\<rparr>))"
    using eq by simp
  show "length (likes (snd (serve (ToggleLike k) e st req))) = length (likes st)"
    using eq by (simp add: length_save_isLiked)
  show "rowsFor k (u_id a) t (likes (snd (serve (ToggleLike k) e st req))) = [row\<lparr>isLiked := d\<rparr>]"
    using route_step_row[OF wf rq row] by simp
next
  assume grow: "length (likes (snd (serve (ToggleLike k) e st req))) \<noteq> length (likes st)"
  show "\<exists>a t. resolvesTo e st req a \<and> idParam (http req) = IdOk t \<and>
              rowsFor k (u_id a) t (likes st) = [] \<and>
              likes (snd (serve (ToggleLike k) e st req)) = likes st @ [newLikeFor k st (u_id a) t]"
  proof (cases rule: route_cases[of k e st req])
    case denied
    with grow show ?thesis by simp
  next
    case (resolved a)
    from toggleLike_shape[of k st "req\<lparr>user := Some a\<rparr>"] grow resolved
    show ?thesis
      by (auto simp: length_save_isLiked resolvesTo_def)
  qed
next
  fix a t e2 req2 e3 req3
  assume h: "targetExists k st t \<and>
        resolvesTo e st req a \<and> idParam (http req) = IdOk t \<and> field req ''toggleLike'' = JBool True \<and>
        resolvesTo e2 st req2 a \<and> idParam (http req2) = IdOk t \<and> field req2 ''toggleLike'' = JBool False \<and>
        resolvesTo e3 st req3 a \<and> idParam (http req3) = IdOk t \<and> field req3 ''toggleLike'' = JBool True"
  then show "\<exists>row. rowsFor k (u_id a) t
                  (likes (snd (serve (ToggleLike k) e3
                     (snd (serve (ToggleLike k) e2 (snd (serve (ToggleLike k) e st req)) req2)) req3))) = [row]
               \<and> isLiked row"
    using like_unlike_like[OF wf, of k t e req a e2 req2 e3 req3] by simp
qed

theorem toggle_like_single_row_witness:
  "likesWf db \<and>
   (\<exists>row. rowsFor OnVideo 2 11
        (likes (snd (serve (ToggleLike OnVideo) world
           (snd (serve (ToggleLike OnVideo) world
              (snd (serve (ToggleLike OnVideo) world db
                 (client (Some bobsToken) (IdOk 11) [] [(''toggleLike'', JBool True)])))
              (client (Some bobsToken) (IdOk 11) [] [(''toggleLike'', JBool False)])))
           (client (Some bobsToken) (IdOk 11) [] [(''toggleLike'', JBool True)])))) = [row]
      \<and> isLiked row)"
proof -
  have wf: "likesWf db"
    by (simp add: likesWf_def onePerPair_def db_def)
  let ?like = "client (Some bobsToken) (IdOk 11) [] [(''toggleLike'', JBool True)]"
  let ?unlike = "client (Some bobsToken) (IdOk 11) [] [(''toggleLike'', JBool False)]"
  have hyps: "targetExists OnVideo db 11 \<and>
      resolvesTo world db ?like bob \<and> idParam (http ?like) = IdOk 11 \<and>
      field ?like ''toggleLike'' = JBool True \<and>
      resolvesTo world db ?unlike bob \<and> idParam (http ?unlike) = IdOk 11 \<and>
      field ?unlike ''toggleLike'' = JBool False \<and>
      resolvesTo world db ?like bob \<and> idParam (http ?like) = IdOk 11 \<and>
      field ?like ''toggleLike'' = JBool True"
    by (simp add: example_defs session_defs targetExists_def)
  have id: "u_id bob = 2" by (simp add: bob_def)
  from toggle_like_single_row[OF wf, of OnVideo world ?like] hyps
  have "\<exists>row. rowsFor OnVideo (u_id bob) 11
        (likes (snd (serve (ToggleLike OnVideo) world
           (snd (serve (ToggleLike OnVideo) world
              (snd (serve (ToggleLike OnVideo) world db ?like)) ?unlike)) ?like))) = [row]
      \<and> isLiked row"
    by blast
  with wf show ?thesis unfolding id by simp
qed

section \<open>Session resolution\<close>

lemma protected_denied:
  assumes "authenticate_try e st req = Inl err"
  shows "protected h e st req =
     (reply 401 (AuthFailure
        (if name err = ''JsonWebTokenError'' then ''Invalid authentication token''
         else if name err = ''TokenExpiredError'' then ''Session expired. Please log in again.''
         else ''Authentication failed. Please try again.'')), st)"
  using assms by (simp add: protected_def authenticateUser_def)

lemma serve_protected:
  "ep \<notin> set textRoutes \<Longrightarrow> \<exists>h. serve ep e st req = protected h e st req"
  by (cases ep) (auto simp: textRoutes_def toggleLikeRoute_def)

text \<open>
  Claim C8. A request whose session cookie is absent (or empty), is no validly signed token,
  is expired, or names an account that is no longer in the store is answered with status 401
  by the middleware, whatever the handler behind it is: the handler is not run and the
  database is unchanged. This holds in particular for an unexpired, validly signed token of a
  deleted account, and for every route registered behind the middleware.
\<close>

theorem session_failure_is_401:
  shows
   "(noToken (sessionCookie req) \<longrightarrow>
       (\<forall>h. protected h e st req = (reply 401 (AuthFailure ''Authentication failed. Please try again.''), st))) \<and>
    ((\<exists>s. s \<noteq> [] \<and> sessionCookie req = Some (Opaque s)) \<or> (\<exists>i k ex. sessionCookie req = Some (Token i k ex) \<and> k \<noteq> secretKey e) \<longrightarrow>
       (\<forall>h. protected h e st req = (reply 401 (AuthFailure ''Invalid authentication token''), st))) \<and>
    ((\<exists>i ex. sessionCookie req = Some (Token i (secretKey e) ex) \<and> ex \<le> now e) \<longrightarrow>
       (\<forall>h. protected h e st req = (reply 401 (AuthFailure ''Session expired. Please log in again.''), st))) \<and>
    ((\<exists>i ex. sessionCookie req = Some (Token i (secretKey e) ex) \<and> now e < ex \<and> UserModel_findById st i = None) \<longrightarrow>
       (\<forall>h. protected h e st req = (reply 401 (AuthFailure ''Authentication failed. Please try again.''), st))) \<and>
    ((noToken (sessionCookie req) \<or> (\<exists>s. sessionCookie req = Some (Opaque s)) \<or>
      (\<exists>i k ex. sessionCookie req = Some (Token i k ex) \<and> (k \<noteq> secretKey e \<or> ex \<le> now e \<or> UserModel_findById st i = None))) \<longrightarrow>
       (\<forall>ep. ep \<notin> set textRoutes \<longrightarrow>
          status (fst (serve ep e st req)) = 401 \<and> snd (serve ep e st req) = st))"
proof (intro conjI impI allI)
  fix h
  assume "noToken (sessionCookie req)"
  then have "authenticate_try e st req = Inl (Error ''Authentication required pls login'')"
    by (auto simp: authenticate_try_def sessionCookie_def split: option.splits)
  from protected_denied[OF this]
  show "protected h e st req = (reply 401 (AuthFailure ''Authentication failed. Please try again.''), st)"
    by simp
next
  fix h
  assume "(\<exists>s. s \<noteq> [] \<and> sessionCookie req = Some (Opaque s)) \<or> (\<exists>i k ex. sessionCookie req = Some (Token i k ex) \<and> k \<noteq> secretKey e)"
  then have "\<exists>m. authenticate_try e st req = Inl (JsonWebTokenError m)"
    by (auto simp: authenticate_try_def sessionCookie_def split: option.splits)
  then obtain m where "authenticate_try e st req = Inl (JsonWebTokenError m)" ..
  from protected_denied[OF this]
  show "protected h e st req = (reply 401 (AuthFailure ''Invalid authentication token''), st)"
    by simp
next
  fix h
  assume "\<exists>i ex. sessionCookie req = Some (Token i (secretKey e) ex) \<and> ex \<le> now e"
  then have "authenticate_try e st req = Inl (TokenExpiredError ''jwt expired'')"
    by (auto simp: authenticate_try_def sessionCookie_def split: option.splits)
  from protected_denied[OF this]
  show "protected h e st req = (reply 401 (AuthFailure ''Session expired. Please log in again.''), st)"
    by simp
next
  fix h
  assume "\<exists>i ex. sessionCookie req = Some (Token i (secretKey e) ex) \<and> now e < ex \<and> UserModel_findById st i = None"
  then have "authenticate_try e st req = Inl (Error ''User Account Not Found. Pls Register'')"
    by (auto simp: authenticate_try_def sessionCookie_def split: option.splits)
  from protected_denied[OF this]
  show "protected h e st req = (reply 401 (AuthFailure ''Authentication failed. Please try again.''), st)"
    by simp
next
  fix ep
  assume bad: "noToken (sessionCookie req) \<or> (\<exists>s. sessionCookie req = Some (Opaque s)) \<or>
      (\<exists>i k ex. sessionCookie req = Some (Token i k ex) \<and> (k \<noteq> secretKey e \<or> ex \<le> now e \<or> UserModel_findById st i = None))"
    and ep: "ep \<notin> set textRoutes"
  from bad have "\<exists>err. authenticate_try e st req = Inl err"
    by (auto simp: authenticate_try_def sessionCookie_def split: option.splits)
  then obtain err where err: "authenticate_try e st req = Inl err" ..
  from serve_protected[OF ep] obtain h where "serve ep e st req = protected h e st req" ..
  with protected_denied[OF err, of h]
  show "status (fst (serve ep e st req)) = 401" and "snd (serve ep e st req) = st"
    by (simp_all add: reply_def)
qed

theorem session_failure_is_401_witness:
  "serve VideoDelete world db (client (Some (Token 3 ''secret'' 5000)) (IdOk 11) [] []) =
     (reply 401 (AuthFailure ''Authentication failed. Please try again.''), db) \<and>
   serve TweetEdit world db (client (Some (Token 1 ''secret'' 999)) (IdOk 21) [] [(''content'', JString ''x'')]) =
     (reply 401 (AuthFailure ''Session expired. Please log in again.''), db) \<and>
   UserModel_findById db 3 = None \<and> now world < 5000 \<and> 999 \<le> now world"
proof -
  let ?gone = "client (Some (Token 3 ''secret'' 5000)) (IdOk 11) [] []"
  let ?late = "client (Some (Token 1 ''secret'' 999)) (IdOk 21) [] [(''content'', JString ''x'')]"
  have facts: "UserModel_findById db 3 = None" "now world < 5000" "999 \<le> now world"
    "secretKey world = ''secret''"
    by (simp_all add: example_defs UserModel_findById_def)
  have gone: "\<exists>i ex. sessionCookie ?gone = Some (Token i (secretKey world) ex) \<and> now world < ex \<and>
      UserModel_findById db i = None"
    using facts by (simp add: sessionCookie_def example_defs)
  have late: "\<exists>i ex. sessionCookie ?late = Some (Token i (secretKey world) ex) \<and> ex \<le> now world"
    using facts by (simp add: sessionCookie_def example_defs)
  from session_failure_is_401[of ?gone world db] gone
  have "protected videoDelete world db ?gone =
      (reply 401 (AuthFailure ''Authentication failed. Please try again.''), db)"
    by blast
  moreover from session_failure_is_401[of ?late world db] late
  have "protected (tweetEdit world) world db ?late =
      (reply 401 (AuthFailure ''Session expired. Please log in again.''), db)"
    by blast
  ultimately show ?thesis using facts by simp
qed

section \<open>The ownership guard\<close>

lemmas guard_defs =
  catch_def req_user_id_def reply_def VideoModel_findById_def TweetModel_findById_def
  CommentModel_findById_def castFailed_def

lemma guarded_resolved:
  assumes "resolvesTo e st req a"
  shows "protected h e st req = h st (req\<lparr>user := Some a\<rparr>)"
    and "UserModel_findById st (u_id a) = Some a"
  using assms route_resolved[of e st req a h] resolves_findById[of e st req a]
  by (simp_all add: resolvesTo_def)

lemma videoDelete_guard:
  assumes "user req = Some a" "UserModel_findById st (u_id a) = Some a"
  shows "guardSpec VideoDelete st req a (videoDelete st req)"
  using assms unfolding guardSpec_def videoDelete_def videoDelete_try_def
  by (auto simp: guard_defs split: param.splits option.splits)

lemma tweetDelete_guard:
  assumes "user req = Some a" "UserModel_findById st (u_id a) = Some a"
  shows "guardSpec TweetDelete st req a (tweetDelete st req)"
  using assms unfolding guardSpec_def tweetDelete_def tweetDelete_try_def
  by (auto simp: guard_defs split: param.splits option.splits)

lemma commentDelete_guard:
  assumes "user req = Some a" "UserModel_findById st (u_id a) = Some a"
  shows "guardSpec CommentDelete st req a (commentDelete st req)"
  using assms unfolding guardSpec_def commentDelete_def commentDelete_try_def
  by (auto simp: guard_defs split: param.splits option.splits)

lemma commentEdit_guard:
  assumes "user req = Some a" "UserModel_findById st (u_id a) = Some a"
  shows "guardSpec CommentEdit st req a (commentEdit st req)"
  using assms unfolding guardSpec_def commentEdit_def commentEdit_try_def
  by (auto simp: guard_defs Let_def split: param.splits option.splits sum.splits bool.splits)

lemma tweetEdit_guard:
  assumes "user req = Some a" "UserModel_findById st (u_id a) = Some a"
  shows "guardSpec TweetEdit st req a (tweetEdit e st req)"
  using assms unfolding guardSpec_def tweetEdit_def tweetEdit_try_def
  by (auto simp: guard_defs Let_def split: param.splits option.splits sum.splits)

lemma videoEdit_guard:
  assumes "user req = Some a"
  shows "guardSpec VideoEdit st req a (videoEdit e st req)"
  using assms unfolding guardSpec_def videoEdit_def videoEdit_try_def
  by (auto simp: guard_defs Let_def split: param.splits option.splits sum.splits)

lemma uploadThumbnail_user:
  "uploadThumbnail e (req\<lparr>user := x\<rparr>) =
     (case uploadThumbnail e req of Inl err \<Rightarrow> Inl err | Inr r \<Rightarrow> Inr (r\<lparr>user := x\<rparr>))"
  by (simp add: uploadThumbnail_def split: option.splits sum.splits)

lemma uploadAdmits_user [simp]: "uploadAdmits ep e (req\<lparr>user := x\<rparr>) = uploadAdmits ep e req"
  by (cases ep) (simp_all add: uploadAdmits_def uploadThumbnail_user split: sum.splits)

lemma uploaded_cases:
  obtains (rejected) err where "uploadThumbnail e req = Inl err"
      "uploaded e h st req = (reply 500 (ErrorPage (message err)), st)"
  | (admitted) req' where "uploadThumbnail e req = Inr req'" "http req' = http req"
      "user req' = user req" "uploaded e h st req = h st req'"
proof (cases "uploadThumbnail e req")
  case (Inl err)
  then show ?thesis using rejected[of err] by (simp add: uploaded_def)
next
  case (Inr req')
  then have "http req' = http req \<and> user req' = user req"
    by (auto simp: uploadThumbnail_def split: option.splits sum.splits if_splits)
  with Inr show ?thesis using admitted[of req'] by (simp add: uploaded_def)
qed

lemma videoEdit_route_guard:
  assumes "user req = Some a" "uploadAdmits VideoEdit e req"
  shows "guardSpec VideoEdit st req a (uploaded e (videoEdit e) st req)"
proof (cases rule: uploaded_cases[of e req "videoEdit e" st])
  case (rejected err)
  with assms(2) show ?thesis by (simp add: uploadAdmits_def)
next
  case (admitted req')
  with assms(1) have "guardSpec VideoEdit st req' a (videoEdit e st req')"
    by (intro videoEdit_guard) simp
  with admitted show ?thesis by (simp add: guardSpec_def)
qed

lemma videoEdit_route_rejected:
  assumes "\<not> uploadAdmits VideoEdit e req"
  shows "status (fst (uploaded e (videoEdit e) st req)) = 500 \<and> snd (uploaded e (videoEdit e) st req) = st"
proof (cases rule: uploaded_cases[of e req "videoEdit e" st])
  case (rejected err)
  then show ?thesis by (simp add: reply_def)
next
  case (admitted req')
  with assms show ?thesis by (simp add: uploadAdmits_def)
qed

lemma videoEdit_route_change:
  assumes "user req = Some a" "snd (uploaded e (videoEdit e) st req) \<noteq> st"
  shows "\<exists>i. idParam (http req) = IdOk i \<and> resourceOwner VideoEdit st i = Some (u_id a)"
proof (cases "uploadAdmits VideoEdit e req")
  case True
  from videoEdit_route_guard[OF assms(1) True, of st] assms(2) show ?thesis
    by (simp add: guardSpec_def)
next
  case False
  from videoEdit_route_rejected[OF False, of st] assms(2) show ?thesis by simp
qed

text \<open>
  Claim C4. On each of the six edit and delete routes, for a request whose session resolves
  to account \<open>a\<close> and which the upload middleware of the video edit lets through: when the
  named resource does not exist the route fails with its not-found error (a different text
  from its Unauthorized error) and changes nothing, whoever asks; an identifier that is no
  ObjectId fails in the lookup, before any owner check, and changes nothing; when the
  resource exists and its owner is not \<open>a\<close> the route fails with its Unauthorized error and
  changes nothing. A request that the upload middleware rejects is answered 500 and changes
  nothing. In every case the database changes only when the resource exists and \<open>a\<close> is its
  owner.
\<close>

theorem ownership_guard:
  assumes ep: "ep \<in> set ownerGated" and a: "resolvesTo e st req a"
  shows
   "(uploadAdmits ep e req \<longrightarrow>
      (\<forall>i. idParam (http req) = IdOk i \<and> resourceOwner ep st i = None \<longrightarrow>
          errorText (fst (serve ep e st req)) = Some (notFoundMessage ep) \<and>
          notFoundMessage ep \<noteq> unauthorizedMessage ep \<and> snd (serve ep e st req) = st) \<and>
      (idParam (http req) = IdBad \<longrightarrow>
          errorText (fst (serve ep e st req)) = Some (message castFailed) \<and>
          message castFailed \<noteq> unauthorizedMessage ep \<and> snd (serve ep e st req) = st) \<and>
      (\<forall>i ow. idParam (http req) = IdOk i \<and> resourceOwner ep st i = Some ow \<and> ow \<noteq> u_id a \<longrightarrow>
          errorText (fst (serve ep e st req)) = Some (unauthorizedMessage ep) \<and>
          snd (serve ep e st req) = st)) \<and>
    (\<not> uploadAdmits ep e req \<longrightarrow>
        status (fst (serve ep e st req)) = 500 \<and> snd (serve ep e st req) = st) \<and>
    (snd (serve ep e st req) \<noteq> st \<longrightarrow>
        (\<exists>i. idParam (http req) = IdOk i \<and> resourceOwner ep st i = Some (u_id a)))"
proof -
  let ?req = "req\<lparr>user := Some a\<rparr>"
  have u: "user ?req = Some a" by simp
  note r = guarded_resolved[OF a]
  have h: "http ?req = http req" by simp
  have msgs: "notFoundMessage ep \<noteq> unauthorizedMessage ep"
    "message castFailed \<noteq> unauthorizedMessage ep"
    using ep unfolding ownerGated_def castFailed_def by auto
  have spec: "uploadAdmits ep e req \<Longrightarrow> guardSpec ep st ?req a (serve ep e st req)"
    using ep unfolding ownerGated_def
    by (auto simp: r videoDelete_guard[OF u r(2)] videoEdit_route_guard[OF u]
        tweetDelete_guard[OF u r(2)] tweetEdit_guard[OF u r(2)]
        commentDelete_guard[OF u r(2)] commentEdit_guard[OF u r(2)])
  have rej: "\<not> uploadAdmits ep e req \<Longrightarrow>
      status (fst (serve ep e st req)) = 500 \<and> snd (serve ep e st req) = st"
  proof -
    assume n: "\<not> uploadAdmits ep e req"
    then have v: "ep = VideoEdit" by (cases ep) (simp_all add: uploadAdmits_def)
    from n have "\<not> uploadAdmits VideoEdit e ?req" unfolding v by simp
    from videoEdit_route_rejected[OF this, of st] show ?thesis
      unfolding v by (simp add: r)
  qed
  have chg: "snd (serve ep e st req) \<noteq> st \<Longrightarrow>
      \<exists>i. idParam (http req) = IdOk i \<and> resourceOwner ep st i = Some (u_id a)"
  proof (cases "uploadAdmits ep e req")
    case True
    assume "snd (serve ep e st req) \<noteq> st"
    with spec[OF True] show ?thesis unfolding guardSpec_def h by blast
  next
    case False
    assume "snd (serve ep e st req) \<noteq> st"
    with rej[OF False] show ?thesis by simp
  qed
  have part: "uploadAdmits ep e req \<longrightarrow>
      (\<forall>i. idParam (http req) = IdOk i \<and> resourceOwner ep st i = None \<longrightarrow>
          errorText (fst (serve ep e st req)) = Some (notFoundMessage ep) \<and>
          notFoundMessage ep \<noteq> unauthorizedMessage ep \<and> snd (serve ep e st req) = st) \<and>
      (idParam (http req) = IdBad \<longrightarrow>
          errorText (fst (serve ep e st req)) = Some (message castFailed) \<and>
          message castFailed \<noteq> unauthorizedMessage ep \<and> snd (serve ep e st req) = st) \<and>
      (\<forall>i ow. idParam (http req) = IdOk i \<and> resourceOwner ep st i = Some ow \<and> ow \<noteq> u_id a \<longrightarrow>
          errorText (fst (serve ep e st req)) = Some (unauthorizedMessage ep) \<and>
          snd (serve ep e st req) = st)"
    using spec msgs unfolding guardSpec_def h by blast
  from part rej chg show ?thesis by blast
qed

theorem ownership_guard_witness:
  "errorText (fst (serve VideoDelete world db (client (Some bobsToken) (IdOk 99) [] []))) = Some ''Video not found.'' \<and>
   snd (serve VideoDelete world db (client (Some bobsToken) (IdOk 99) [] [])) = db \<and>
   errorText (fst (serve VideoDelete world db (client (Some bobsToken) (IdOk 11) [] []))) =
     Some ''Unauthorized: Only the owner can delete this video.'' \<and>
   snd (serve VideoDelete world db (client (Some bobsToken) (IdOk 11) [] [])) = db \<and>
   resourceOwner VideoDelete db 99 = None \<and> resourceOwner VideoDelete db 11 = Some 1 \<and> u_id bob = 2"
proof -
  let ?absent = "client (Some bobsToken) (IdOk 99) [] []"
  let ?alices = "client (Some bobsToken) (IdOk 11) [] []"
  have ep: "VideoDelete \<in> set ownerGated" by (simp add: ownerGated_def)
  have res: "resolvesTo world db ?absent bob" "resolvesTo world db ?alices bob"
    by (simp_all add: example_defs session_defs)
  have facts: "idParam (http ?absent) = IdOk 99" "idParam (http ?alices) = IdOk 11"
    "resourceOwner VideoDelete db 99 = None" "resourceOwner VideoDelete db 11 = Some 1" "u_id bob = 2"
    by (simp_all add: example_defs)
  have adm: "uploadAdmits VideoDelete world r" for r
    by (simp add: uploadAdmits_def)
  from ownership_guard[OF ep res(1)] facts adm
  have 1: "errorText (fst (serve VideoDelete world db ?absent)) = Some (notFoundMessage VideoDelete) \<and>
           snd (serve VideoDelete world db ?absent) = db"
    by blast
  from ownership_guard[OF ep res(2)] facts adm
  have 2: "errorText (fst (serve VideoDelete world db ?alices)) = Some (unauthorizedMessage VideoDelete) \<and>
           snd (serve VideoDelete world db ?alices) = db"
    by (metis Suc_1 n_not_Suc_n)
  from 1 2 facts show ?thesis by simp
qed

section \<open>Failure responses\<close>

lemma catch_okOrError:
  assumes "\<And>ok. r = Inr ok \<Longrightarrow> (status (fst ok) = 200 \<or> status (fst ok) = 201) \<and> \<not> isErrorJson (fst ok)"
  shows "okOrError st (catch 400 lbl st r)"
  using assms by (cases r) (auto simp: okOrError_def catch_def reply_def isErrorJson_def)

lemmas try_splits = param.splits option.splits sum.splits bool.splits jsval.splits if_splits

lemma videoToggleLike_ok: "okOrError st (videoToggleLike st req)"
  unfolding videoToggleLike_def
  by (rule catch_okOrError)
     (auto simp: videoToggleLike_try_def LikeModel_save_new_ok reply_def isErrorJson_def Let_def
           split: try_splits)

lemma tweetToggleLike_ok: "okOrError st (tweetToggleLike st req)"
  unfolding tweetToggleLike_def
  by (rule catch_okOrError)
     (auto simp: tweetToggleLike_try_def LikeModel_save_new_ok reply_def isErrorJson_def Let_def
           split: try_splits)

lemma commentToggleLike_ok: "okOrError st (commentToggleLike st req)"
  unfolding commentToggleLike_def
  by (rule catch_okOrError)
     (auto simp: commentToggleLike_try_def LikeModel_save_new_ok reply_def isErrorJson_def Let_def
           split: try_splits)

lemma videoEdit_ok: "okOrError st (videoEdit e st req)"
  unfolding videoEdit_def
  by (rule catch_okOrError)
     (auto simp: videoEdit_try_def reply_def isErrorJson_def Let_def split: try_splits)

lemma videoComment_ok: "okOrError st (videoComment st req)"
  unfolding videoComment_def
  by (rule catch_okOrError)
     (auto simp: videoComment_try_def reply_def isErrorJson_def Let_def split: try_splits)

lemma tweetUpload_ok: "okOrError st (tweetUpload st req)"
  unfolding tweetUpload_def
  by (rule catch_okOrError)
     (auto simp: tweetUpload_try_def reply_def isErrorJson_def Let_def split: try_splits)

lemma tweetDelete_ok: "okOrError st (tweetDelete st req)"
  unfolding tweetDelete_def
  by (rule catch_okOrError)
     (auto simp: tweetDelete_try_def reply_def isErrorJson_def Let_def split: try_splits)

lemma tweetEdit_ok: "okOrError st (tweetEdit e st req)"
  unfolding tweetEdit_def
  by (rule catch_okOrError)
     (auto simp: tweetEdit_try_def reply_def isErrorJson_def Let_def split: try_splits)

lemma commentDelete_ok: "okOrError st (commentDelete st req)"
  unfolding commentDelete_def
  by (rule catch_okOrError)
     (auto simp: commentDelete_try_def reply_def isErrorJson_def Let_def split: try_splits)

lemma commentEdit_ok: "okOrError st (commentEdit st req)"
  unfolding commentEdit_def
  by (rule catch_okOrError)
     (auto simp: commentEdit_try_def reply_def isErrorJson_def Let_def split: try_splits)

lemma channelView_ok: "okOrText st (channelView st req)"
  by (auto simp: okOrText_def channelView_def channelView_try_def reply_def isText_def Let_def
      split: try_splits)

lemma history_ok: "okOrText st (history st req)"
  by (auto simp: okOrText_def history_def history_try_def reply_def isText_def Let_def
      split: try_splits list.splits)

lemma login_ok: "okOrText st (login e st req)"
  by (auto simp: okOrText_def login_def login_try_def login_credentials_def reply_def isText_def
      split: try_splits)

lemma videoDelete_status: "status (fst (videoDelete st req)) \<noteq> 401"
  by (auto simp: videoDelete_def videoDelete_try_def catch_def reply_def split: try_splits)

lemma protected_cases:
  obtains (denied) err where "authenticate_try e st req = Inl err"
      "status (fst (protected h e st req)) = 401" "isAuthFailure (fst (protected h e st req))"
      "snd (protected h e st req) = st"
  | (resolved) a where "resolvesTo e st req a" "protected h e st req = h st (req\<lparr>user := Some a\<rparr>)"
proof (cases "authenticate_try e st req")
  case (Inl err)
  then show ?thesis
    using denied[of err] by (simp add: protected_denied reply_def isAuthFailure_def)
next
  case (Inr a)
  then show ?thesis
    using resolved[of a] route_resolved[OF Inr] by (simp add: resolvesTo_def)
qed

lemma videoEdit_route_ok:
  assumes "uploadAdmits VideoEdit e req"
  shows "okOrError st (uploaded e (videoEdit e) st req)"
proof (cases rule: uploaded_cases[of e req "videoEdit e" st])
  case (rejected err)
  with assms show ?thesis by (simp add: uploadAdmits_def)
next
  case (admitted req')
  with videoEdit_ok[of st e req'] show ?thesis by simp
qed

lemma json_handler:
  assumes "ep \<in> set jsonRoutes"
  shows "\<exists>h. serve ep e st req = protected h e st req \<and>
             (\<forall>st r. uploadAdmits ep e r \<longrightarrow> okOrError st (h st r))"
proof -
  from assms consider "ep = VideoEdit" | "ep = VideoComment" | "ep = TweetUpload" | "ep = TweetDelete"
    | "ep = TweetEdit" | "ep = CommentDelete" | "ep = CommentEdit"
    | "ep = ToggleLike OnVideo" | "ep = ToggleLike OnTweet" | "ep = ToggleLike OnComment"
    by (auto simp: jsonRoutes_def)
  then show ?thesis
  proof cases
    case 1 then show ?thesis using videoEdit_route_ok
      by (intro exI[of _ "uploaded e (videoEdit e)"]) simp
  next
    case 2 then show ?thesis using videoComment_ok by (intro exI[of _ videoComment]) simp
  next
    case 3 then show ?thesis using tweetUpload_ok by (intro exI[of _ tweetUpload]) simp
  next
    case 4 then show ?thesis using tweetDelete_ok by (intro exI[of _ tweetDelete]) simp
  next
    case 5 then show ?thesis using tweetEdit_ok by (intro exI[of _ "tweetEdit e"]) simp
  next
    case 6 then show ?thesis using commentDelete_ok by (intro exI[of _ commentDelete]) simp
  next
    case 7 then show ?thesis using commentEdit_ok by (intro exI[of _ commentEdit]) simp
  next
    case 8 then show ?thesis using videoToggleLike_ok
      by (intro exI[of _ videoToggleLike]) (simp add: toggleLikeRoute_def toggleLike_def)
  next
    case 9 then show ?thesis using tweetToggleLike_ok
      by (intro exI[of _ tweetToggleLike]) (simp add: toggleLikeRoute_def toggleLike_def)
  next
    case 10 then show ?thesis using commentToggleLike_ok
      by (intro exI[of _ commentToggleLike]) (simp add: toggleLikeRoute_def toggleLike_def)
  qed
qed

lemma json_route:
  assumes "ep \<in> set jsonRoutes" "uploadAdmits ep e req"
  shows "(status (fst (serve ep e st req)) = 401 \<and> isAuthFailure (fst (serve ep e st req)) \<and>
            snd (serve ep e st req) = st \<and> (\<exists>err. authenticate_try e st req = Inl err)) \<or>
         (status (fst (serve ep e st req)) = 400 \<and> isErrorJson (fst (serve ep e st req)) \<and>
            snd (serve ep e st req) = st \<and> (\<exists>a. resolvesTo e st req a)) \<or>
         ((status (fst (serve ep e st req)) = 200 \<or> status (fst (serve ep e st req)) = 201) \<and>
            \<not> isErrorJson (fst (serve ep e st req)) \<and> (\<exists>a. resolvesTo e st req a))"
proof -
  from json_handler[OF assms(1)] obtain h where
    h: "serve ep e st req = protected h e st req"
       "\<And>st r. uploadAdmits ep e r \<Longrightarrow> okOrError st (h st r)" by blast
  show ?thesis
  proof (cases rule: protected_cases[of e st req h])
    case (denied err)
    then show ?thesis unfolding h(1) by blast
  next
    case (resolved a)
    from assms(2) have "uploadAdmits ep e (req\<lparr>user := Some a\<rparr>)" by simp
    from h(2)[OF this, of st] resolved show ?thesis
      unfolding h(1) okOrError_def by auto
  qed
qed

lemma upload_rejected_status:
  assumes "\<not> uploadAdmits ep e req"
  shows "status (fst (serve ep e st req)) = 401 \<longrightarrow> (\<exists>err. authenticate_try e st req = Inl err)"
proof -
  from assms have v: "ep = VideoEdit" by (cases ep) (simp_all add: uploadAdmits_def)
  show ?thesis
  proof (cases rule: protected_cases[of e st req "uploaded e (videoEdit e)"])
    case (denied err)
    then show ?thesis by blast
  next
    case (resolved a)
    from assms have "\<not> uploadAdmits VideoEdit e (req\<lparr>user := Some a\<rparr>)" unfolding v by simp
    from videoEdit_route_rejected[OF this, of st] resolved show ?thesis
      unfolding v by simp
  qed
qed

lemma text_route:
  assumes "ep \<in> set textRoutes"
  shows "okOrText st (serve ep e st req)"
  using assms channelView_ok history_ok login_ok by (auto simp: textRoutes_def)

lemma status_401_only_session:
  assumes "status (fst (serve ep e st req)) = 401"
  shows "\<exists>err. authenticate_try e st req = Inl err"
proof -
  consider "ep \<in> set jsonRoutes" | "ep \<in> set textRoutes" | "ep = VideoDelete"
    by (cases ep; simp add: jsonRoutes_def textRoutes_def; metis kind.exhaust)
  then show ?thesis
  proof cases
    case 1
    show ?thesis
    proof (cases "uploadAdmits ep e req")
      case True
      from json_route[OF 1 True, of st] assms show ?thesis by auto
    next
      case False
      from upload_rejected_status[OF False, of st] assms show ?thesis by simp
    qed
  next
    case 2
    from text_route[OF 2, of st e req] assms show ?thesis by (auto simp: okOrText_def)
  next
    case 3
    show ?thesis
    proof (cases rule: protected_cases[of e st req videoDelete])
      case (denied err)
      then show ?thesis by blast
    next
      case (resolved a)
      with assms 3 videoDelete_status show ?thesis by simp
    qed
  qed
qed

text \<open>
  Claim C7, as the code has it. On the video edit and comment routes, the tweet upload, edit
  and delete routes, the comment edit and delete routes and the three toggle-like routes, a
  request is answered in one of three ways: 401 with the middleware's failure body when the
  session does not resolve; 400 with a \<open>{message, error}\<close> pair, the database unchanged,
  for every failure after the session resolved; 200 or 201 otherwise (for the video edit:
  when its upload middleware lets the request through). On the channel view,
  the history view and the login, a failure is answered 400 with a plain text, not with a
  \<open>{message, error}\<close> pair. On every route, a status 401 means that session resolution
  failed.
\<close>

theorem failure_responses:
  "(ep \<in> set jsonRoutes \<and> uploadAdmits ep e req \<longrightarrow>
      (status (fst (serve ep e st req)) = 401 \<and> isAuthFailure (fst (serve ep e st req)) \<and>
         snd (serve ep e st req) = st \<and> (\<exists>err. authenticate_try e st req = Inl err)) \<or>
      (status (fst (serve ep e st req)) = 400 \<and> isErrorJson (fst (serve ep e st req)) \<and>
         snd (serve ep e st req) = st \<and> (\<exists>a. resolvesTo e st req a)) \<or>
      ((status (fst (serve ep e st req)) = 200 \<or> status (fst (serve ep e st req)) = 201) \<and>
         \<not> isErrorJson (fst (serve ep e st req)) \<and> (\<exists>a. resolvesTo e st req a))) \<and>
   (ep \<in> set textRoutes \<longrightarrow>
      (status (fst (serve ep e st req)) = 400 \<and> isText (fst (serve ep e st req)) \<and>
         snd (serve ep e st req) = st) \<or>
      (status (fst (serve ep e st req)) = 200 \<and> \<not> isText (fst (serve ep e st req)))) \<and>
   (status (fst (serve ep e st req)) = 401 \<longrightarrow> (\<exists>err. authenticate_try e st req = Inl err))"
  using json_route[where ep = ep and e = e and st = st and req = req]
    text_route[where ep = ep and e = e and st = st and req = req]
    status_401_only_session[where ep = ep and e = e and st = st and req = req]
  unfolding okOrText_def by blast

theorem failure_responses_counterexample:
  "serve ChannelView world db (client None IdBad ''nobody'' []) =
     (reply 400 (Text ''Unable to fetch the channel Details :: ERROR : Channel not found.''), db) \<and>
   \<not> isErrorJson (fst (serve ChannelView world db (client None IdBad ''nobody'' [])))"
  by (simp add: channelView_def channelView_try_def example_defs reply_def isErrorJson_def
      trim_def isWhiteSpace_def toLowerCase_def toLowerCaseChar_def Let_def)

theorem failure_responses_witness:
  "TweetEdit \<in> set jsonRoutes \<and>
   status (fst (serve TweetEdit world db (client (Some bobsToken) (IdOk 21) [] [(''content'', JString ''x'')]))) = 400 \<and>
   isErrorJson (fst (serve TweetEdit world db (client (Some bobsToken) (IdOk 21) [] [(''content'', JString ''x'')]))) \<and>
   resolvesTo world db (client (Some bobsToken) (IdOk 21) [] [(''content'', JString ''x'')]) bob"
proof -
  let ?req = "client (Some bobsToken) (IdOk 21) [] [(''content'', JString ''x'')]"
  have ep: "TweetEdit \<in> set jsonRoutes" "uploadAdmits TweetEdit world ?req"
    by (simp_all add: jsonRoutes_def uploadAdmits_def)
  have res: "resolvesTo world db ?req bob" by (simp add: example_defs session_defs)
  then have no: "\<not> (\<exists>err. authenticate_try world db ?req = Inl err)" by (simp add: resolvesTo_def)
  have "status (fst (serve TweetEdit world db ?req)) \<noteq> 200"
    by (simp add: example_defs session_defs tweetEdit_def tweetEdit_try_def catch_def TweetModel_findById_def)
  moreover have "status (fst (serve TweetEdit world db ?req)) \<noteq> 201"
    by (simp add: example_defs session_defs tweetEdit_def tweetEdit_try_def catch_def TweetModel_findById_def)
  ultimately show ?thesis
    using failure_responses[where ep = TweetEdit and e = world and st = db and req = ?req] ep res no
    by blast
qed

section \<open>The channel view and the history view\<close>

lemmas string_defs = trim_def isWhiteSpace_def toLowerCase_def toLowerCaseChar_def

text \<open>
  Claim C5, evaluated. Bob's cookie holds a valid token, and the store holds the subscription
  of Bob to Alice's channel. The channel route is registered without the middleware, so
  \<open>req.user\<close> is undefined when the pipeline is built, and the view of Alice's channel that
  Bob receives carries \<open>isSubscribed = false\<close>.
\<close>

theorem follower_sees_not_subscribed:
  "resolvesTo world db (client (Some bobsToken) IdBad ''alice'' []) bob \<and>
   list_ex (\<lambda>s. subscriber s = u_id bob \<and> channel s = u_id alice) (subscriptions db) \<and>
   serve ChannelView world db (client (Some bobsToken) IdBad ''alice'' []) =
     (reply 200 (ChannelJson
        [\<lparr>cv_id = 1, cv_username = ''alice'', cv_avatar = ''alice.png'', cv_coverImage = ''cover.png'',
          cv_isPremium = False, cv_email = ''alice@example.com'', subscribersCount = 1,
          subscribedToCount = 0, isSubscribed = False\<rparr>]), db)"
  by (simp add: example_defs session_defs channelView_def channelView_try_def channelPipeline_def
      inExpr_def string_defs Let_def)

lemma channel_view_never_subscribed:
  "\<forall>v \<in> set (channelsOf (fst (serve ChannelView e st (incoming h)))). \<not> isSubscribed v"
  by (auto simp: channelsOf_def channelView_def channelView_try_def channelPipeline_def inExpr_def
      incoming_def reply_def Let_def)

text \<open>
  Claim C9. The channel route runs no middleware, and its projection keeps \<open>email\<close>: for a
  handle that is not blank and whose lower-case form is the username of an account, every
  request, whatever its cookies, is answered 200 with a channel document that carries the
  account's email.
\<close>

theorem channel_view_exposes_email:
  assumes "u \<in> set (users st)" "username u = toLowerCase (usernameParam (http req))"
    "trim (usernameParam (http req)) \<noteq> []"
  shows "\<exists>vs. serve ChannelView e st req = (reply 200 (ChannelJson vs), st) \<and>
           (\<exists>v \<in> set vs. cv_id v = u_id u \<and> cv_email v = email u)"
proof -
  let ?us = "filter (\<lambda>w. username w = toLowerCase (usernameParam (http req))) (users st)"
  let ?vs = "map (channelPipeline st req) ?us"
  from assms(1,2) have in_us: "u \<in> set ?us" by simp
  then have ne: "?vs \<noteq> []" by (metis Nil_is_map_conv empty_iff empty_set)
  have "serve ChannelView e st req = (reply 200 (ChannelJson ?vs), st)"
    using assms(3) ne by (simp add: channelView_def channelView_try_def Let_def)
  moreover have "\<exists>v \<in> set ?vs. cv_id v = u_id u \<and> cv_email v = email u"
    using in_us by (intro bexI[of _ "channelPipeline st req u"]) (simp_all add: channelPipeline_def Let_def)
  ultimately show ?thesis by blast
qed

theorem channel_view_exposes_email_witness:
  "sessionCookie (client None IdBad ''Alice'' []) = None \<and>
   (\<exists>vs. serve ChannelView world db (client None IdBad ''Alice'' []) = (reply 200 (ChannelJson vs), db) \<and>
      (\<exists>v \<in> set vs. cv_id v = 1 \<and> cv_email v = ''alice@example.com''))"
proof -
  let ?req = "client None IdBad ''Alice'' []"
  have p: "usernameParam (http ?req) = ''Alice''" by (simp add: example_defs)
  have lower: "toLowerCase ''Alice'' = ''alice''" by code_simp
  have h: "alice \<in> set (users db)" "username alice = toLowerCase (usernameParam (http ?req))"
    "trim (usernameParam (http ?req)) \<noteq> []"
    unfolding p lower by (simp_all add: example_defs trim_def isWhiteSpace_def)
  have c: "sessionCookie ?req = None" by (simp add: sessionCookie_def example_defs)
  from channel_view_exposes_email[OF h, of world] c show ?thesis
    by (simp add: alice_def)
qed

text \<open>
  Claim C6, evaluated. Alice's cookie holds a valid token, her stored history is 12, 11, 12,
  and both videos are in the store. The history route is registered without the middleware,
  unlike the other \<open>/me\<close> routes, so \<open>req.user\<close> is undefined when the handler reads
  \<open>req.user._id\<close>: the read throws, and the route answers 400 with a text and no video
  record at all.
\<close>

theorem history_route_fails_for_account:
  "resolvesTo world db (client (Some alicesToken) IdBad [] []) alice \<and>
   watchHistory alice = [12, 11, 12] \<and>
   map v_id (videos db) = [11, 12] \<and>
   serve History world db (client (Some alicesToken) IdBad [] []) =
     (reply 400 (Text (''Unable to fetch the watch History :: ERROR : '' @
                       message (undefinedRead ''_id''))), db) \<and>
   historyIds (fst (serve History world db (client (Some alicesToken) IdBad [] []))) = []"
  by (simp add: example_defs session_defs history_def history_try_def historyIds_def)

text \<open>The same holds for every request the route can receive.\<close>

lemma history_route_always_fails:
  "serve History e st (incoming h) =
     (reply 400 (Text (''Unable to fetch the watch History :: ERROR : '' @ message (undefinedRead ''_id''))), st)"
  by (simp add: history_def history_try_def req_user_id_def incoming_def)

section \<open>Validation of registration and login\<close>

lemma someBlank_True:
  "someBlank fs = Inr True \<Longrightarrow> \<exists>f \<in> set fs. \<exists>s. f = JString s \<and> trim s = []"
proof (induction fs)
  case Nil
  then show ?case by simp
next
  case (Cons f fs)
  then show ?case by (cases f) (auto split: if_splits)
qed

lemma someBlank_absent:
  "\<forall>f \<in> set fs. f = JUndefined \<or> f = JNull \<or> (\<exists>s. f = JString s \<and> trim s \<noteq> []) \<Longrightarrow>
   someBlank fs = Inr False"
  by (induction fs) auto

lemma allFieldsRequired_rejects:
  assumes "allFieldsRequired fs = Inl (Error ''All fields are required'')"
  shows "\<exists>f \<in> set fs. \<exists>s. f = JString s \<and> trim s = []"
proof (cases "someBlank fs")
  case (Inl err)
  have "\<And>fs. someBlank fs = Inl err \<Longrightarrow> \<exists>m. err = TypeError m"
  proof -
    fix fs show "someBlank fs = Inl err \<Longrightarrow> \<exists>m. err = TypeError m"
    proof (induction fs)
      case Nil then show ?case by simp
    next
      case (Cons f fs)
      then show ?case by (cases f) (auto simp: notAFunction_def split: if_splits)
    qed
  qed
  from this[OF Inl] assms Inl show ?thesis by (auto simp: allFieldsRequired_def)
next
  case (Inr b)
  with assms have "someBlank fs = Inr True"
    by (cases b) (simp_all add: allFieldsRequired_def)
  then show ?thesis by (rule someBlank_True)
qed

lemma allFieldsRequired_passes:
  assumes "\<forall>f \<in> set fs. f = JUndefined \<or> f = JNull \<or> (\<exists>s. f = JString s \<and> trim s \<noteq> [])"
  shows "allFieldsRequired fs = Inr ()"
  by (simp add: allFieldsRequired_def someBlank_absent[OF assms])

text \<open>
  Claim C10. The check "All fields are required" of registration and of login rejects a
  request only when one of the fields it reads is a string that trims to the empty string.
  A body in which every field it reads is absent or a string that does not trim to the empty
  string passes the check; the login handler then goes on to the credential lookup, where
  any rejection of the missing field is decided.
\<close>

theorem absent_field_passes_validation:
  "(register_validate req = Inl (Error ''All fields are required'') \<longrightarrow>
      (\<exists>k \<in> {''username'', ''email'', ''password''}. \<exists>s. field req k = JString s \<and> trim s = [])) \<and>
   (login_validate req = Inl (Error ''All fields are required'') \<longrightarrow>
      (\<exists>k \<in> {''email'', ''password''}. \<exists>s. field req k = JString s \<and> trim s = [])) \<and>
   ((\<forall>k \<in> {''username'', ''email'', ''password''}.
        field req k = JUndefined \<or> (\<exists>s. field req k = JString s \<and> trim s \<noteq> [])) \<longrightarrow>
      register_validate req = Inr ()) \<and>
   ((\<forall>k \<in> {''email'', ''password''}.
        field req k = JUndefined \<or> (\<exists>s. field req k = JString s \<and> trim s \<noteq> [])) \<longrightarrow>
      login_validate req = Inr () \<and> login_try e st req = login_credentials e st req)"
proof (intro conjI impI)
  assume "register_validate req = Inl (Error ''All fields are required'')"
  from allFieldsRequired_rejects[OF this[unfolded register_validate_def]]
  show "\<exists>k \<in> {''username'', ''email'', ''password''}. \<exists>s. field req k = JString s \<and> trim s = []"
    by auto
next
  assume "login_validate req = Inl (Error ''All fields are required'')"
  from allFieldsRequired_rejects[OF this[unfolded login_validate_def]]
  show "\<exists>k \<in> {''email'', ''password''}. \<exists>s. field req k = JString s \<and> trim s = []"
    by auto
next
  assume "\<forall>k \<in> {''username'', ''email'', ''password''}.
        field req k = JUndefined \<or> (\<exists>s. field req k = JString s \<and> trim s \<noteq> [])"
  then show "register_validate req = Inr ()"
    unfolding register_validate_def by (intro allFieldsRequired_passes) auto
next
  assume a: "\<forall>k \<in> {''email'', ''password''}.
        field req k = JUndefined \<or> (\<exists>s. field req k = JString s \<and> trim s \<noteq> [])"
  then show v: "login_validate req = Inr ()"
    unfolding login_validate_def by (intro allFieldsRequired_passes) auto
  show "login_try e st req = login_credentials e st req"
    by (simp add: login_try_def v)
qed

theorem absent_field_passes_validation_witness:
  "field (client None IdBad [] [(''email'', JString ''bob@example.com'')]) ''password'' = JUndefined \<and>
   register_validate (client None IdBad [] []) = Inr () \<and>
   login_validate (client None IdBad [] [(''email'', JString ''bob@example.com'')]) = Inr () \<and>
   login_try world db (client None IdBad [] [(''email'', JString ''bob@example.com'')]) =
     Inl (Error ''Error while validating Password : Error: data and hash arguments required'')"
proof -
  let ?none = "client None IdBad [] []"
  let ?req = "client None IdBad [] [(''email'', JString ''bob@example.com'')]"
  have f: "field ?req ''password'' = JUndefined" "field ?req ''email'' = JString ''bob@example.com''"
    "\<forall>k. field ?none k = JUndefined"
    by (simp_all add: example_defs field_def)
  have t: "trim ''bob@example.com'' \<noteq> []"
    by (simp add: trim_def isWhiteSpace_def)
  have later: "login_credentials world db ?req =
      Inl (Error ''Error while validating Password : Error: data and hash arguments required'')"
    by (simp add: login_credentials_def validatePassword_def example_defs field_def)
  from absent_field_passes_validation[of ?none world db] f(3)
  have 1: "register_validate ?none = Inr ()" by simp
  from absent_field_passes_validation[of ?req world db] f(1,2) t
  have 2: "login_validate ?req = Inr () \<and> login_try world db ?req = login_credentials world db ?req"
    by simp
  from 1 2 f later show ?thesis by simp
qed


section \<open>Uniqueness at the storage layer\<close>

text \<open>
  Claim C2, as the code has it. The subscriptions collection carries a unique compound index
  on subscriber and channel: the store refuses a second edge of the same pair and accepts any
  other. The likes collection declares four single-field indexes, none of them unique: the
  store accepts every new Like row, so one row per account and target rests on the handlers'
  lookup before the write alone.
\<close>

theorem store_uniqueness:
  "(list_ex (\<lambda>d. subscriber d = subscriber s \<and> channel d = channel s) coll \<longrightarrow>
      insertOne SubscriptionSchema_indexes subscription_path s coll = Inl duplicateKey) \<and>
   (\<not> list_ex (\<lambda>d. subscriber d = subscriber s \<and> channel d = channel s) coll \<longrightarrow>
      insertOne SubscriptionSchema_indexes subscription_path s coll = Inr (coll @ [s])) \<and>
   \<not> list_ex unique LikeSchema_indexes \<and>
   insertOne LikeSchema_indexes like_path l ls = Inr (ls @ [l]) \<and>
   LikeModel_save_new st l = Inr (st\<lparr>likes := likes st @ [l], nextId := Suc (nextId st)\<rparr>)"
  by (auto simp: insertOne_def SubscriptionSchema_indexes_def LikeSchema_indexes_def
      subscription_path_def LikeModel_save_new_def list_ex_iff)

text \<open>The store accepts a second Like row of account 2 for video 11.\<close>

theorem store_uniqueness_counterexample:
  "insertOne LikeSchema_indexes like_path
      \<lparr>l_id = 101, isLiked = True, likedBy = 2, comment = None, video = Some 11, tweet = None\<rparr>
      [\<lparr>l_id = 100, isLiked = True, likedBy = 2, comment = None, video = Some 11, tweet = None\<rparr>] =
    Inr [\<lparr>l_id = 100, isLiked = True, likedBy = 2, comment = None, video = Some 11, tweet = None\<rparr>,
         \<lparr>l_id = 101, isLiked = True, likedBy = 2, comment = None, video = Some 11, tweet = None\<rparr>] \<and>
   length (rowsFor OnVideo 2 11
      [\<lparr>l_id = 100, isLiked = True, likedBy = 2, comment = None, video = Some 11, tweet = None\<rparr>,
       \<lparr>l_id = 101, isLiked = True, likedBy = 2, comment = None, video = Some 11, tweet = None\<rparr>]) = 2"
  by (simp add: insertOne_def LikeSchema_indexes_def rowsFor_def target_def)

theorem store_uniqueness_witness:
  "list_ex (\<lambda>d. subscriber d = 2 \<and> channel d = 1) (subscriptions db) \<and>
   insertOne SubscriptionSchema_indexes subscription_path
      \<lparr>s_id = 42, subscriber = 2, channel = 1\<rparr> (subscriptions db) = Inl duplicateKey \<and>
   insertOne SubscriptionSchema_indexes subscription_path
      \<lparr>s_id = 42, subscriber = 1, channel = 2\<rparr> (subscriptions db) =
     Inr (subscriptions db @ [\<lparr>s_id = 42, subscriber = 1, channel = 2\<rparr>])"
proof -
  have a: "list_ex (\<lambda>d. subscriber d = 2 \<and> channel d = 1) (subscriptions db)"
    and b: "\<not> list_ex (\<lambda>d. subscriber d = 1 \<and> channel d = 2) (subscriptions db)"
    by (simp_all add: db_def)
  from store_uniqueness[of "\<lparr>s_id = 42, subscriber = 2, channel = 1\<rparr>" "subscriptions db"] a
  have 1: "insertOne SubscriptionSchema_indexes subscription_path
      \<lparr>s_id = 42, subscriber = 2, channel = 1\<rparr> (subscriptions db) = Inl duplicateKey"
    by simp
  from store_uniqueness[of "\<lparr>s_id = 42, subscriber = 1, channel = 2\<rparr>" "subscriptions db"] b
  have 2: "insertOne SubscriptionSchema_indexes subscription_path
      \<lparr>s_id = 42, subscriber = 1, channel = 2\<rparr> (subscriptions db) =
     Inr (subscriptions db @ [\<lparr>s_id = 42, subscriber = 1, channel = 2\<rparr>])"
    by simp
  from a 1 2 show ?thesis by simp
qed

end
